theory Spec2Isabelle
  imports Main "HOL-Library.Word"
begin

section \<open>Constants and types of usb.h\<close>

type_synonym uint8_t = "8 word"
type_synonym uint16_t = "16 word"

definition STATE_DEFAULT :: uint8_t where "STATE_DEFAULT = 3"
definition STATE_ADDRESS :: uint8_t where "STATE_ADDRESS = 4"
definition STATE_CONFIGURED :: uint8_t where "STATE_CONFIGURED = 6"

text \<open>The block \<^verbatim>\<open>CONTROL TRANSFER STAGES\<close> of usb.h.\<close>

definition SETUP_STAGE :: uint8_t where "SETUP_STAGE = 0"
definition DATA_IN_STAGE :: uint8_t where "DATA_IN_STAGE = 1"
definition DATA_OUT_STAGE :: uint8_t where "DATA_OUT_STAGE = 2"
definition STATUS_IN_STAGE :: uint8_t where "STATUS_IN_STAGE = 3"
definition STATUS_OUT_STAGE :: uint8_t where "STATUS_OUT_STAGE = 4"

definition ROM :: uint8_t where "ROM = 0"
definition RAM :: uint8_t where "RAM = 1"

text \<open>
  The four values that \<^verbatim>\<open>PINGPONG_MODE\<close> is compared with in usb.h and in the
  examples. The mode is fixed when the firmware is built.
\<close>

datatype pingpong_mode = PINGPONG_DIS | PINGPONG_0_OUT | PINGPONG_1_15 | PINGPONG_ALL_EP

text \<open>Direction index of \<^verbatim>\<open>g_usb_ep_stat[ep][dir]\<close>.\<close>

datatype usb_dir = OUT | IN

text \<open>
  \<^verbatim>\<open>usb_ep_stat_t\<close>: three one-bit fields. A one-bit unsigned field holds 0 or 1 and
  \<^verbatim>\<open>x ^= 1\<close> on it is negation, so each field is a \<open>bool\<close> (\<open>True\<close> is 1).
\<close>

record usb_ep_stat_t =
  Data_Toggle_Val :: bool
  Halt :: bool
  Last_PPB :: bool

definition EVEN :: bool where "EVEN = False"
definition ODD :: bool where "ODD = True"

text \<open>
  Modelled from the spec: the declaration of \<^verbatim>\<open>ch9_setup_t\<close> (usb_ch9.h) is not among
  the sources. The setup packet is the 8-byte control-request header: request type,
  request, value, index, length.
\<close>

record ch9_setup_t =
  bmRequestType :: uint8_t
  bRequest :: uint8_t
  wValue :: uint16_t
  wIndex :: uint16_t
  wLength :: uint16_t

text \<open>
  Modelled from the spec: the declaration of \<^verbatim>\<open>bd_t\<close> (usb_hal.h) is not among the
  sources. A buffer descriptor has a byte count, a buffer address, an ownership flag
  (firmware or hardware engine), a data-toggle bit and a send-stall flag. The table has
  one descriptor per endpoint, direction and ping-pong slot.
\<close>

record bd_t =
  owned_by_hw :: bool
  send_stall :: bool
  data_toggle :: bool
  CNT :: nat
  ADR :: nat

type_synonym bd_index = "nat \<times> usb_dir \<times> bool"

definition EP0 :: nat where "EP0 = 0"

definition BD0_IN :: bd_index where "BD0_IN = (EP0, IN, EVEN)"
definition BD0_IN_EVEN :: bd_index where "BD0_IN_EVEN = (EP0, IN, EVEN)"
definition BD0_IN_ODD :: bd_index where "BD0_IN_ODD = (EP0, IN, ODD)"

text \<open>The RAM objects whose address \<^verbatim>\<open>cdc_class_request\<close> hands to \<^verbatim>\<open>usb_set_ram_ptr\<close>.\<close>

datatype ram_ref =
  Ref_g_cdc_get_line_coding_return
| Ref_g_cdc_set_line_coding
| Ref_dummy_buffer
| Ref_other nat

text \<open>
  The functions declared in usb.h that the class layer calls. Every call is recorded, in
  order, in the field \<open>calls\<close> of the state, so that "this path never calls f" is a
  property of the model.
\<close>

datatype usb_call =
  Call_usb_set_ram_ptr ram_ref
| Call_usb_setup_in_control_transfer uint8_t nat nat
| Call_usb_in_control_transfer
| Call_usb_set_control_stage uint8_t
| Call_usb_set_num_out_control_bytes nat
| Call_usb_arm_ep0_in bd_index nat
| Call_usb_arm_in_status
| Call_usb_arm_endpoint bd_index nat
| Call_usb_stall_ep bd_index
| Call_cdc_set_control_line_state

text \<open>
  The build-time configuration: macros of usb_config.h and usb_cdc.h, which are not among
  the sources. The CDC request codes are the case labels of the \<^verbatim>\<open>switch\<close> in
  \<^verbatim>\<open>cdc_class_request\<close>; the \<open>USE_\<close> flags say which \<^verbatim>\<open>#ifdef\<close> blocks are compiled.
\<close>

record usb_config =
  PINGPONG_MODE :: pingpong_mode
  EP0_SIZE :: nat
  CDC_COM_INT :: uint16_t
  USE_GET_LINE_CODING :: bool
  USE_SET_LINE_CODING :: bool
  USE_SET_CONTROL_LINE_STATE :: bool
  GET_LINE_CODING :: uint8_t
  SET_LINE_CODING :: uint8_t
  SET_CONTROL_LINE_STATE :: uint8_t
  SEND_ENCAPSULATED_COMMAND :: uint8_t
  GET_ENCAPSULATED_RESPONSE :: uint8_t
  CDC_COM_EP :: nat
  CDC_DAT_EP :: nat
  CDC_DAT_EP_SIZE :: nat

text \<open>
  The five request codes are five different constants of the CDC class: they are case
  labels of one \<^verbatim>\<open>switch\<close>, which compiles only when they are pairwise different.
\<close>

definition cdc_request_codes :: "usb_config \<Rightarrow> uint8_t list" where
  "cdc_request_codes cfg =
     [GET_LINE_CODING cfg, SET_LINE_CODING cfg, SET_CONTROL_LINE_STATE cfg,
      SEND_ENCAPSULATED_COMMAND cfg, GET_ENCAPSULATED_RESPONSE cfg]"

definition switch_compiles :: "usb_config \<Rightarrow> bool" where
  "switch_compiles cfg = distinct (cdc_request_codes cfg)"

section \<open>The state of the stack\<close>

text \<open>
  The globals of usb.h (\<^verbatim>\<open>g_usb_setup\<close>, \<^verbatim>\<open>g_usb_ep_stat\<close>, \<^verbatim>\<open>g_usb_bd_table\<close>), the
  module variables of usb.c that the documentation of usb.h names or implies
  (\<^verbatim>\<open>m_usb_state\<close>, the control stage, the byte counts of the control transfer, the
  RAM source pointer), the device address register, and
  \<^verbatim>\<open>g_cdc_set_line_coding_wait\<close> of usb_cdc_acm.c.
\<close>

record usb =
  g_usb_setup :: ch9_setup_t
  g_usb_ep_stat :: "nat \<Rightarrow> usb_dir \<Rightarrow> usb_ep_stat_t"
  g_usb_bd_table :: "bd_index \<Rightarrow> bd_t"
  m_usb_state :: uint8_t
  device_address :: uint16_t
  control_stage :: uint8_t
  num_in_control_bytes :: nat
  num_out_control_bytes :: nat
  send_short :: bool
  sending_from :: uint8_t
  ram_ptr :: ram_ref
  g_cdc_set_line_coding_wait :: bool
  calls :: "usb_call list"

definition log_call :: "usb_call \<Rightarrow> usb \<Rightarrow> usb" where
  "log_call c s = s\<lparr>calls := calls s @ [c]\<rparr>"

text \<open>The calls made on the way from \<open>s\<close> to \<open>s'\<close>.\<close>

definition new_calls :: "usb \<Rightarrow> usb \<Rightarrow> usb_call list" where
  "new_calls s s' = drop (length (calls s)) (calls s')"

definition set_ep_stat :: "nat \<Rightarrow> usb_dir \<Rightarrow> usb_ep_stat_t \<Rightarrow> usb \<Rightarrow> usb" where
  "set_ep_stat ep d v s = s\<lparr>g_usb_ep_stat := (g_usb_ep_stat s)(ep := (g_usb_ep_stat s ep)(d := v))\<rparr>"

definition set_bd :: "bd_index \<Rightarrow> bd_t \<Rightarrow> usb \<Rightarrow> usb" where
  "set_bd i v s = s\<lparr>g_usb_bd_table := (g_usb_bd_table s)(i := v)\<rparr>"

section \<open>The core functions declared in usb.h\<close>


text \<open>
  Modelled from the spec: usb.c is not among the sources. \<^verbatim>\<open>usb_set_control_stage\<close>
  "sets the next control stage on EP0" (usb.h).
\<close>

definition usb_set_control_stage :: "uint8_t \<Rightarrow> usb \<Rightarrow> usb" where
  "usb_set_control_stage st s = log_call (Call_usb_set_control_stage st) (s\<lparr>control_stage := st\<rparr>)"

text \<open>
  Modelled from the spec: usb.c is not among the sources. \<^verbatim>\<open>usb_set_num_out_control_bytes\<close>
  "sets the number of bytes in the out control transfer" (usb.h).
\<close>

definition usb_set_num_out_control_bytes :: "nat \<Rightarrow> usb \<Rightarrow> usb" where
  "usb_set_num_out_control_bytes n s =
     log_call (Call_usb_set_num_out_control_bytes n) (s\<lparr>num_out_control_bytes := n\<rparr>)"

text \<open>
  Modelled from the spec: usb.c is not among the sources. \<^verbatim>\<open>usb_set_ram_ptr\<close> "points to
  data in RAM to be sent" (usb.h).
\<close>

definition usb_set_ram_ptr :: "ram_ref \<Rightarrow> usb \<Rightarrow> usb" where
  "usb_set_ram_ptr p s = log_call (Call_usb_set_ram_ptr p) (s\<lparr>ram_ptr := p\<rparr>)"

text \<open>
  Modelled from the spec: usb.c is not among the sources. Arming transitions the
  targeted buffer descriptor from firmware-owned to hardware-owned with the given byte
  count, recording the toggle used (the current data-toggle value of the endpoint).
\<close>

definition arm_bd :: "bd_index \<Rightarrow> bool \<Rightarrow> nat \<Rightarrow> usb \<Rightarrow> usb" where
  "arm_bd i tgl cnt s =
     set_bd i ((g_usb_bd_table s i)\<lparr>owned_by_hw := True, send_stall := False,
                                    data_toggle := tgl, CNT := cnt\<rparr>) s"

text \<open>
  Modelled from the spec: usb.c is not among the sources. \<^verbatim>\<open>usb_arm_endpoint\<close> "arms any
  OUT/IN endpoint for a transaction" (usb.h), given the descriptor, the endpoint status
  (here the endpoint and direction it belongs to) and the byte count.
\<close>

definition usb_arm_endpoint :: "bd_index \<Rightarrow> nat \<times> usb_dir \<Rightarrow> nat \<Rightarrow> usb \<Rightarrow> usb" where
  "usb_arm_endpoint i e cnt s =
     log_call (Call_usb_arm_endpoint i cnt)
       (arm_bd i (Data_Toggle_Val (g_usb_ep_stat s (fst e) (snd e))) cnt s)"

text \<open>
  Modelled from the spec: usb.c is not among the sources. The descriptor that the next
  transaction on EP0 IN is armed on: under \<^verbatim>\<open>PINGPONG_ALL_EP\<close> the slot that was not used
  last (\<^verbatim>\<open>usb_arm_ep0_in\<close> then takes the index of the descriptor, usb.h); in the other
  modes EP0 IN has one descriptor.
\<close>

definition ep0_in_next_bd :: "usb_config \<Rightarrow> usb \<Rightarrow> bd_index" where
  "ep0_in_next_bd cfg s =
     (if PINGPONG_MODE cfg = PINGPONG_ALL_EP
      then (if Last_PPB (g_usb_ep_stat s EP0 IN) = ODD then BD0_IN_EVEN else BD0_IN_ODD)
      else BD0_IN)"

text \<open>
  Modelled from the spec: usb.c is not among the sources. \<^verbatim>\<open>usb_arm_ep0_in\<close> "arms EP0 IN
  endpoint for a transaction" of the given number of bytes (usb.h).
\<close>

definition usb_arm_ep0_in :: "usb_config \<Rightarrow> nat \<Rightarrow> usb \<Rightarrow> usb" where
  "usb_arm_ep0_in cfg cnt s =
     log_call (Call_usb_arm_ep0_in (ep0_in_next_bd cfg s) cnt)
       (arm_bd (ep0_in_next_bd cfg s) (Data_Toggle_Val (g_usb_ep_stat s EP0 IN)) cnt s)"

text \<open>
  Modelled from the spec: usb.c is not among the sources. \<^verbatim>\<open>usb_arm_in_status\<close> "arms
  any EP0 IN endpoint for status stage (zero-length data packet)" (usb.h).
\<close>

definition usb_arm_in_status :: "usb_config \<Rightarrow> usb \<Rightarrow> usb" where
  "usb_arm_in_status cfg s =
     log_call Call_usb_arm_in_status
       (arm_bd (ep0_in_next_bd cfg s) (Data_Toggle_Val (g_usb_ep_stat s EP0 IN)) 0 s)"

text \<open>
  Modelled from the spec: usb.c is not among the sources.
  \<^verbatim>\<open>usb_setup_in_control_transfer\<close> computes the number of bytes to send,
  \<open>n = min bytes_available requested_length\<close>, and whether the transfer must end with a
  zero-length packet: when \<open>n\<close> is a non-zero multiple of the EP0 max-packet-size and
  \<open>n < requested_length\<close>. Both arguments are \<^verbatim>\<open>uint16_t\<close>; nothing here can wrap.
\<close>

definition usb_setup_in_control_transfer :: "usb_config \<Rightarrow> uint8_t \<Rightarrow> nat \<Rightarrow> nat \<Rightarrow> usb \<Rightarrow> usb" where
  "usb_setup_in_control_transfer cfg ram_rom bytes_available requested_length s =
     (let n = min bytes_available requested_length in
      log_call (Call_usb_setup_in_control_transfer ram_rom bytes_available requested_length)
        (s\<lparr>sending_from := ram_rom,
           num_in_control_bytes := n,
           send_short := (n \<noteq> 0 \<and> n mod EP0_SIZE cfg = 0 \<and> n < requested_length)\<rparr>))"

text \<open>
  Modelled from the spec: usb.c is not among the sources. \<^verbatim>\<open>usb_in_control_transfer\<close>
  "processes an IN control (EP0 IN) transaction" (usb.h): it arms EP0 IN with the next
  chunk of at most max-packet-size bytes and counts the chunk off the bytes that remain.
\<close>

definition usb_in_control_transfer :: "usb_config \<Rightarrow> usb \<Rightarrow> usb" where
  "usb_in_control_transfer cfg s =
     (let bytes = min (num_in_control_bytes s) (EP0_SIZE cfg);
          s1 = log_call Call_usb_in_control_transfer s;
          s2 = usb_arm_ep0_in cfg bytes s1
      in s2\<lparr>num_in_control_bytes := num_in_control_bytes s2 - bytes\<rparr>)"

section \<open>usb_cdc_acm.c: the class-request handler\<close>

text \<open>
  Modelled from the spec: the declaration of \<^verbatim>\<open>cdc_set_get_line_coding_t\<close> (usb_cdc.h) is
  not among the sources. \<^verbatim>\<open>g_cdc_set_get_line_coding\<close> lies at \<^verbatim>\<open>SETUP_DATA_ADDR\<close>, over
  \<^verbatim>\<open>g_usb_setup\<close>; its member \<^verbatim>\<open>Size_of_Structure\<close> is the length field of the request.
\<close>

definition Size_of_Structure :: "usb \<Rightarrow> uint16_t" where
  "Size_of_Structure s = wLength (g_usb_setup s)"

text \<open>\<^verbatim>\<open>cdc_set_control_line_state\<close> of the CDC example: an empty body.\<close>

definition cdc_set_control_line_state :: "usb \<Rightarrow> usb" where
  "cdc_set_control_line_state s = log_call Call_cdc_set_control_line_state s"

text \<open>
  The bodies of the cases of the \<^verbatim>\<open>switch\<close> in \<^verbatim>\<open>cdc_class_request\<close>, each with the
  \<^verbatim>\<open>bool\<close> it returns and the state it leaves behind.
\<close>

definition case_GET_LINE_CODING :: "usb_config \<Rightarrow> usb \<Rightarrow> bool \<times> usb" where
  "case_GET_LINE_CODING cfg s =
     (let s1 = usb_set_ram_ptr Ref_g_cdc_get_line_coding_return s;
          s2 = usb_setup_in_control_transfer cfg RAM 7 (unat (Size_of_Structure s1)) s1;
          s3 = usb_in_control_transfer cfg s2;
          s4 = usb_set_control_stage DATA_IN_STAGE s3
      in (True, s4))"

definition case_SET_LINE_CODING :: "usb_config \<Rightarrow> usb \<Rightarrow> bool \<times> usb" where
  "case_SET_LINE_CODING cfg s =
     (let s1 = usb_set_ram_ptr Ref_g_cdc_set_line_coding s in
      if Size_of_Structure s1 > 7 then (False, s1)
      else
        (let s2 = usb_set_num_out_control_bytes (unat (Size_of_Structure s1)) s1;
             s3 = s2\<lparr>g_cdc_set_line_coding_wait := True\<rparr>;
             s4 = usb_set_control_stage DATA_OUT_STAGE s3
         in (True, s4)))"

definition case_SET_CONTROL_LINE_STATE :: "usb_config \<Rightarrow> usb \<Rightarrow> bool \<times> usb" where
  "case_SET_CONTROL_LINE_STATE cfg s =
     (if wIndex (g_usb_setup s) \<noteq> CDC_COM_INT cfg then (False, s)
      else
        (let s1 = cdc_set_control_line_state s;
             s2 = usb_arm_in_status cfg s1
         in (True, s2)))"

definition case_SEND_ENCAPSULATED_COMMAND :: "usb_config \<Rightarrow> usb \<Rightarrow> bool \<times> usb" where
  "case_SEND_ENCAPSULATED_COMMAND cfg s =
     (let s1 = usb_set_ram_ptr Ref_dummy_buffer s in
      if wLength (g_usb_setup s1) > 8 then (False, s1)
      else
        (let s2 = usb_set_num_out_control_bytes (unat (wLength (g_usb_setup s1))) s1;
             s3 = usb_set_control_stage DATA_OUT_STAGE s2
         in (True, s3)))"

definition case_GET_ENCAPSULATED_RESPONSE :: "usb_config \<Rightarrow> usb \<Rightarrow> bool \<times> usb" where
  "case_GET_ENCAPSULATED_RESPONSE cfg s =
     (let s1 = usb_set_ram_ptr Ref_dummy_buffer s;
          s2 = usb_setup_in_control_transfer cfg RAM 8 (unat (wLength (g_usb_setup s1))) s1;
          s3 = usb_in_control_transfer cfg s2;
          s4 = usb_set_control_stage DATA_IN_STAGE s3
      in (True, s4))"

text \<open>
  \<^verbatim>\<open>cdc_class_request\<close>. The \<^verbatim>\<open>switch\<close> on \<^verbatim>\<open>g_usb_setup.bRequest\<close> is the chain of tests
  below, a case under \<^verbatim>\<open>#ifdef\<close> being present only when its flag is set; \<^verbatim>\<open>default\<close>
  returns false.
\<close>

definition cdc_class_request :: "usb_config \<Rightarrow> usb \<Rightarrow> bool \<times> usb" where
  "cdc_class_request cfg s =
     (if USE_GET_LINE_CODING cfg \<and> bRequest (g_usb_setup s) = GET_LINE_CODING cfg
        then case_GET_LINE_CODING cfg s
      else if USE_SET_LINE_CODING cfg \<and> bRequest (g_usb_setup s) = SET_LINE_CODING cfg
        then case_SET_LINE_CODING cfg s
      else if USE_SET_CONTROL_LINE_STATE cfg \<and> bRequest (g_usb_setup s) = SET_CONTROL_LINE_STATE cfg
        then case_SET_CONTROL_LINE_STATE cfg s
      else if bRequest (g_usb_setup s) = SEND_ENCAPSULATED_COMMAND cfg
        then case_SEND_ENCAPSULATED_COMMAND cfg s
      else if bRequest (g_usb_setup s) = GET_ENCAPSULATED_RESPONSE cfg
        then case_GET_ENCAPSULATED_RESPONSE cfg s
      else (False, s))"

section \<open>Ping-pong bookkeeping\<close>

text \<open>
  Which endpoints and directions a mode double-buffers. usb.h gives EP0 one OUT and one
  IN buffer under \<^verbatim>\<open>PINGPONG_DIS\<close> and \<^verbatim>\<open>PINGPONG_1_15\<close>, an even and an odd OUT buffer and
  one IN buffer under \<^verbatim>\<open>PINGPONG_0_OUT\<close>, and even and odd buffers in both directions
  otherwise; \<^verbatim>\<open>hid_out\<close> reads \<^verbatim>\<open>Last_PPB\<close> of a class endpoint under \<^verbatim>\<open>PINGPONG_1_15\<close>
  and \<^verbatim>\<open>PINGPONG_ALL_EP\<close> only.
\<close>

fun double_buffered :: "pingpong_mode \<Rightarrow> nat \<Rightarrow> usb_dir \<Rightarrow> bool" where
  "double_buffered PINGPONG_DIS ep d = False"
| "double_buffered PINGPONG_0_OUT ep d = (ep = EP0 \<and> d = OUT)"
| "double_buffered PINGPONG_1_15 ep d = (ep \<noteq> EP0)"
| "double_buffered PINGPONG_ALL_EP ep d = True"

text \<open>
  The descriptor that a transaction on an endpoint uses: on a double-buffered endpoint the
  slot that was not used last, otherwise the only one.
\<close>

definition slot_in_use :: "usb_config \<Rightarrow> nat \<Rightarrow> usb_dir \<Rightarrow> usb \<Rightarrow> bd_index" where
  "slot_in_use cfg ep d s =
     (ep, d, if double_buffered (PINGPONG_MODE cfg) ep d
             then \<not> Last_PPB (g_usb_ep_stat s ep d) else EVEN)"

text \<open>
  Modelled from the spec: usb.c is not among the sources. Once per completed
  transaction the buffer model returns the descriptor that was used to the firmware,
  alternates the even/odd slot of a double-buffered endpoint and tracks the slot used
  last; a single-buffered endpoint does not alternate.
\<close>

definition usb_transaction_complete :: "usb_config \<Rightarrow> nat \<Rightarrow> usb_dir \<Rightarrow> usb \<Rightarrow> usb" where
  "usb_transaction_complete cfg ep d s =
     (let i = slot_in_use cfg ep d s;
          s1 = set_bd i ((g_usb_bd_table s i)\<lparr>owned_by_hw := False\<rparr>) s;
          st = g_usb_ep_stat s1 ep d
      in if double_buffered (PINGPONG_MODE cfg) ep d
         then set_ep_stat ep d (st\<lparr>Last_PPB := \<not> Last_PPB st\<rparr>) s1
         else s1)"

section \<open>Stall and request error\<close>

text \<open>
  Modelled from the spec: usb.c is not among the sources. \<^verbatim>\<open>usb_stall_ep\<close> "stalls any
  OUT/IN endpoint" (usb.h): the descriptor is handed to the hardware engine in the
  stall state, which the engine answers with a STALL handshake until it is cleared.
  It takes the descriptor only; the endpoint status is not among its arguments.
\<close>

definition usb_stall_ep :: "bd_index \<Rightarrow> usb \<Rightarrow> usb" where
  "usb_stall_ep i s =
     log_call (Call_usb_stall_ep i)
       (set_bd i ((g_usb_bd_table s i)\<lparr>owned_by_hw := True, send_stall := True\<rparr>) s)"

text \<open>The macro \<^verbatim>\<open>usb_request_error()\<close> of usb.h, in its two variants.\<close>

definition usb_request_error :: "usb_config \<Rightarrow> usb \<Rightarrow> usb" where
  "usb_request_error cfg s =
     (if PINGPONG_MODE cfg \<noteq> PINGPONG_ALL_EP then usb_stall_ep BD0_IN s
      else usb_stall_ep BD0_IN_ODD (usb_stall_ep BD0_IN_EVEN s))"

section \<open>The control transfer engine\<close>

datatype std_request =
  GET_STATUS | CLEAR_FEATURE | SET_FEATURE | SET_ADDRESS | GET_DESCRIPTOR | SET_DESCRIPTOR
| GET_CONFIGURATION | SET_CONFIGURATION | GET_INTERFACE | SET_INTERFACE | SYNCH_FRAME

text \<open>
  What the engine is linked with: the classification of a setup packet as one of the
  eleven standard requests (the codes of usb_ch9.h are not among the sources), the
  class-request hook (for the CDC class, \<^verbatim>\<open>cdc_class_request\<close>), and the handlers of
  the standard requests other than SET_ADDRESS.
\<close>

record usb_engine =
  standard_request_of :: "ch9_setup_t \<Rightarrow> std_request option"
  class_request :: "usb \<Rightarrow> bool \<times> usb"
  standard_request :: "std_request \<Rightarrow> usb \<Rightarrow> usb"

text \<open>
  Modelled from the spec: usb.c is not among the sources. A SETUP token discards the
  context of the transfer in progress, whatever its stage: no byte count carries over.
\<close>

definition abort_transfer :: "usb \<Rightarrow> usb" where
  "abort_transfer s =
     s\<lparr>control_stage := SETUP_STAGE, num_in_control_bytes := 0,
       num_out_control_bytes := 0, send_short := False\<rparr>"

text \<open>
  Modelled from the spec: usb.c is not among the sources. The SETUP stage: the transfer
  in progress is aborted and the request is decoded afresh. A standard request is
  handled directly. SET_ADDRESS has no DATA stage: STATUS_IN is armed at once, and
  nothing else happens before that stage completes. Any other request goes to the
  class-request hook; when the hook does not claim it, the engine signals a request
  error.
\<close>

definition process_setup :: "usb_config \<Rightarrow> usb_engine \<Rightarrow> usb \<Rightarrow> usb" where
  "process_setup cfg eng s =
     (let s0 = abort_transfer s
      in case standard_request_of eng (g_usb_setup s0) of
           Some SET_ADDRESS \<Rightarrow> usb_arm_in_status cfg (s0\<lparr>control_stage := STATUS_IN_STAGE\<rparr>)
         | Some r \<Rightarrow> standard_request eng r s0
         | None \<Rightarrow>
             (case class_request eng s0 of
                (True, s1) \<Rightarrow> s1
              | (False, s1) \<Rightarrow> usb_request_error cfg s1))"

text \<open>
  Modelled from the spec: usb.c is not among the sources. Arming EP0 OUT for the
  zero-length packet of the STATUS_OUT stage.
\<close>

definition usb_arm_out_status :: "usb_config \<Rightarrow> usb \<Rightarrow> usb" where
  "usb_arm_out_status cfg s =
     arm_bd (slot_in_use cfg EP0 OUT s) (Data_Toggle_Val (g_usb_ep_stat s EP0 OUT)) 0 s"

text \<open>
  Modelled from the spec: usb.c is not among the sources. A completed IN transaction on
  endpoint 0: the toggle of EP0 IN flips and the ping-pong bookkeeping is updated; then,
  in the DATA_IN stage, the next chunk is armed while bytes remain, then the closing
  zero-length packet when the transfer must end short, then STATUS_OUT; in the
  STATUS_IN stage the transfer is over, and a SET_ADDRESS takes effect: the device
  takes the address of the request and enters the Address state.
\<close>

definition ep0_in_complete :: "usb_config \<Rightarrow> usb_engine \<Rightarrow> usb \<Rightarrow> usb" where
  "ep0_in_complete cfg eng s =
     (let st = g_usb_ep_stat s EP0 IN;
          s1 = usb_transaction_complete cfg EP0 IN
                 (set_ep_stat EP0 IN (st\<lparr>Data_Toggle_Val := \<not> Data_Toggle_Val st\<rparr>) s)
      in if control_stage s1 = DATA_IN_STAGE then
           (if num_in_control_bytes s1 \<noteq> 0 then usb_in_control_transfer cfg s1
            else if send_short s1 then usb_arm_ep0_in cfg 0 (s1\<lparr>send_short := False\<rparr>)
            else usb_arm_out_status cfg (s1\<lparr>control_stage := STATUS_OUT_STAGE\<rparr>))
         else if control_stage s1 = STATUS_IN_STAGE then
           (if standard_request_of eng (g_usb_setup s1) = Some SET_ADDRESS
            then s1\<lparr>device_address := wValue (g_usb_setup s1), m_usb_state := STATE_ADDRESS,
                    control_stage := SETUP_STAGE\<rparr>
            else s1\<lparr>control_stage := SETUP_STAGE\<rparr>)
         else s1)"

text \<open>
  The DATA_IN stage of a control transfer, as the handlers of \<^verbatim>\<open>cdc_class_request\<close> start
  it: \<^verbatim>\<open>usb_setup_in_control_transfer\<close>, \<^verbatim>\<open>usb_in_control_transfer\<close>, then
  \<^verbatim>\<open>usb_set_control_stage(DATA_IN_STAGE)\<close>.
\<close>

definition start_in_control_transfer :: "usb_config \<Rightarrow> uint8_t \<Rightarrow> nat \<Rightarrow> nat \<Rightarrow> usb \<Rightarrow> usb" where
  "start_in_control_transfer cfg ram_rom bytes_available requested_length s =
     usb_set_control_stage DATA_IN_STAGE
       (usb_in_control_transfer cfg
          (usb_setup_in_control_transfer cfg ram_rom bytes_available requested_length s))"

text \<open>
  The host takes every packet that is armed: each armed IN transaction completes, until
  the engine leaves the DATA_IN stage. The first argument bounds the number of
  completions; \<open>None\<close> says that the stage was not over within the bound.
\<close>

fun run_data_in :: "nat \<Rightarrow> usb_config \<Rightarrow> usb_engine \<Rightarrow> usb \<Rightarrow> usb option" where
  "run_data_in 0 cfg eng s = (if control_stage s = DATA_IN_STAGE then None else Some s)"
| "run_data_in (Suc k) cfg eng s =
     (if control_stage s = DATA_IN_STAGE then run_data_in k cfg eng (ep0_in_complete cfg eng s)
      else Some s)"

text \<open>The byte counts of the IN transactions armed on endpoint 0, in order.\<close>

fun ep0_in_packets :: "usb_call list \<Rightarrow> nat list" where
  "ep0_in_packets [] = []"
| "ep0_in_packets (Call_usb_arm_ep0_in i cnt # cs) = cnt # ep0_in_packets cs"
| "ep0_in_packets (c # cs) = ep0_in_packets cs"

text \<open>
  The IN transactions of the DATA_IN stage of the transfer that
  \<^verbatim>\<open>usb_setup_in_control_transfer(ram_rom, bytes_available, requested_length)\<close> sets up in
  state \<open>s\<close>: their byte counts, in order. The bound on the completions is the number of
  bytes to send plus two; the stage is over well within it.
\<close>

definition data_in_transactions ::
  "usb_config \<Rightarrow> usb_engine \<Rightarrow> uint8_t \<Rightarrow> nat \<Rightarrow> nat \<Rightarrow> usb \<Rightarrow> nat list option"
where
  "data_in_transactions cfg eng ram_rom bytes_available requested_length s =
     map_option (\<lambda>t. drop (length (ep0_in_packets (calls s))) (ep0_in_packets (calls t)))
       (run_data_in (min bytes_available requested_length + 2) cfg eng
          (start_in_control_transfer cfg ram_rom bytes_available requested_length s))"

text \<open>\<open>r\<close> bytes cut into full packets of \<open>mps\<close> bytes and the rest, if there is one.\<close>

definition chunks :: "nat \<Rightarrow> nat \<Rightarrow> nat list" where
  "chunks mps r = replicate (r div mps) mps @ (if r mod mps = 0 then [] else [r mod mps])"

text \<open>The transaction count that the specification gives for \<open>n\<close> bytes to send.\<close>

definition spec_transaction_count :: "nat \<Rightarrow> nat \<Rightarrow> nat \<Rightarrow> nat" where
  "spec_transaction_count mps n requested_length =
     (if 0 < n \<and> n mod mps = 0 \<and> n < requested_length then n div mps + 1
      else if n = 0 then 1
      else (n + mps - 1) div mps)"

section \<open>usb_cdc_acm.c: the endpoints of the CDC class\<close>

text \<open>
  The descriptors \<^verbatim>\<open>CDC_DAT_BD_OUT\<close> and \<^verbatim>\<open>CDC_DAT_BD_IN\<close> of the data endpoint: the CDC
  library arms one descriptor for each direction.
\<close>

definition CDC_DAT_BD_OUT :: "usb_config \<Rightarrow> bd_index" where
  "CDC_DAT_BD_OUT cfg = (CDC_DAT_EP cfg, OUT, EVEN)"


text \<open>\<^verbatim>\<open>cdc_arm_data_ep_out\<close> and \<^verbatim>\<open>cdc_arm_data_ep_in\<close> of usb_cdc_acm.c.\<close>

definition cdc_arm_data_ep_out :: "usb_config \<Rightarrow> usb \<Rightarrow> usb" where
  "cdc_arm_data_ep_out cfg s =
     usb_arm_endpoint (CDC_DAT_BD_OUT cfg) (CDC_DAT_EP cfg, OUT) (CDC_DAT_EP_SIZE cfg) s"


text \<open>
  The update \<^verbatim>\<open>..._DATA_TOGGLE_VAL ^= 1\<close> that \<^verbatim>\<open>cdc_tasks\<close> makes for the endpoint and
  direction of the completed transaction.
\<close>

definition toggle_ep :: "nat \<Rightarrow> usb_dir \<Rightarrow> usb \<Rightarrow> usb" where
  "toggle_ep ep d s =
     set_ep_stat ep d ((g_usb_ep_stat s ep d)\<lparr>Data_Toggle_Val := \<not> Data_Toggle_Val (g_usb_ep_stat s ep d)\<rparr>) s"

section \<open>The CDC serial example (main.c)\<close>

text \<open>
  Who writes a transfer-complete flag. The two flags are \<^verbatim>\<open>static\<close> in main.c: only the
  functions of main.c can name them, and four of them assign to them.
\<close>

datatype flag_writer = By_cdc_data_out | By_cdc_data_in | By_send | By_receive

datatype serial_flag = Serial_pkt_sent | Serial_pkt_rcv

text \<open>
  What the functions of main.c do to the flags and to the data endpoint, step by step: an
  assignment to a flag (who, which flag, which value), a test of a flag in a polling loop
  (which flag, the value found), and the arming of a descriptor of the data endpoint with
  a byte count.
\<close>

datatype main_step =
  Flag_written flag_writer serial_flag bool
| Flag_polled serial_flag bool
| Endpoint_armed bd_index nat

text \<open>
  The machine that main.c runs on: the USB interrupt enable and flag bits, the last
  \<^verbatim>\<open>USTAT\<close> (\<^verbatim>\<open>TRANSACTION_EP\<close> and \<^verbatim>\<open>TRANSACTION_DIR\<close>), the state of the stack, the data
  endpoint buffers of usb_cdc_acm.c, \<^verbatim>\<open>g_cdc_num_data_out\<close>, and the two flags of main.c.
  The steps taken are recorded, in order, in \<open>trace\<close>.
\<close>

record mcu =
  USB_INTERRUPT_ENABLE :: bool
  USB_INTERRUPT_FLAG :: bool
  TRANSACTION_EP :: nat
  TRANSACTION_DIR :: usb_dir
  stack :: usb
  g_cdc_dat_ep_out :: "uint8_t list"
  g_cdc_dat_ep_in :: "uint8_t list"
  g_cdc_num_data_out :: uint8_t
  m_serial_pkt_sent :: bool
  m_serial_pkt_rcv :: bool
  trace :: "main_step list"

definition step :: "main_step \<Rightarrow> mcu \<Rightarrow> mcu" where
  "step x m = m\<lparr>trace := trace m @ [x]\<rparr>"

definition cdc_data_out :: "mcu \<Rightarrow> mcu" where
  "cdc_data_out m =
     step (Flag_written By_cdc_data_out Serial_pkt_rcv True) (m\<lparr>m_serial_pkt_rcv := True\<rparr>)"

definition cdc_data_in :: "mcu \<Rightarrow> mcu" where
  "cdc_data_in m =
     step (Flag_written By_cdc_data_in Serial_pkt_sent True) (m\<lparr>m_serial_pkt_sent := True\<rparr>)"

text \<open>\<^verbatim>\<open>cdc_notification\<close> of the example has an empty body.\<close>

definition cdc_notification :: "mcu \<Rightarrow> mcu" where
  "cdc_notification m = m"

text \<open>
  \<^verbatim>\<open>cdc_tasks\<close> of usb_cdc_acm.c. \<^verbatim>\<open>g_cdc_num_data_out\<close> is a \<^verbatim>\<open>uint8_t\<close>: the count of the
  descriptor is stored modulo 256.
\<close>

definition cdc_tasks :: "usb_config \<Rightarrow> mcu \<Rightarrow> mcu" where
  "cdc_tasks cfg m =
     (if TRANSACTION_EP m = CDC_COM_EP cfg then
        cdc_notification (m\<lparr>stack := toggle_ep (CDC_COM_EP cfg) IN (stack m)\<rparr>)
      else if TRANSACTION_EP m = CDC_DAT_EP cfg then
        (if TRANSACTION_DIR m = OUT then
           cdc_data_out
             (m\<lparr>stack := toggle_ep (CDC_DAT_EP cfg) OUT (stack m),
                g_cdc_num_data_out := of_nat (CNT (g_usb_bd_table (stack m) (CDC_DAT_BD_OUT cfg)))\<rparr>)
         else
           cdc_data_in (m\<lparr>stack := toggle_ep (CDC_DAT_EP cfg) IN (stack m)\<rparr>))
      else m)"

text \<open>
  Modelled from the spec: usb.c is not among the sources. The driving function, for a
  completed transaction on a class endpoint: the ping-pong bookkeeping, then the class
  transaction hook (\<^verbatim>\<open>cdc_tasks\<close>). A transaction on endpoint 0 is the business of the
  control transfer engine above; usb.c cannot name the variables of main.c, which are
  \<^verbatim>\<open>static\<close>, and the machine is left as it is here.
\<close>

definition usb_tasks :: "usb_config \<Rightarrow> mcu \<Rightarrow> mcu" where
  "usb_tasks cfg m =
     (if TRANSACTION_EP m = EP0 then m
      else cdc_tasks cfg
             (m\<lparr>stack := usb_transaction_complete cfg (TRANSACTION_EP m) (TRANSACTION_DIR m) (stack m)\<rparr>))"

text \<open>What one invocation of the interrupt service routine does, in order.\<close>

datatype isr_step = Usb_tasks_entered bool | Usb_tasks_returned | Interrupt_flag_cleared

text \<open>
  \<^verbatim>\<open>isr\<close> of main.c (the same in the CDC and the HID example). The driving function is
  a parameter. The steps are returned with the state; \<open>Usb_tasks_entered f\<close> carries the
  value of \<^verbatim>\<open>USB_INTERRUPT_FLAG\<close> at the call.
\<close>

definition isr :: "(mcu \<Rightarrow> mcu) \<Rightarrow> mcu \<Rightarrow> isr_step list \<times> mcu" where
  "isr tasks m =
     (if USB_INTERRUPT_ENABLE m \<and> USB_INTERRUPT_FLAG m
      then ([Usb_tasks_entered (USB_INTERRUPT_FLAG m), Usb_tasks_returned, Interrupt_flag_cleared],
            (tasks m)\<lparr>USB_INTERRUPT_FLAG := False\<rparr>)
      else ([], m))"

text \<open>
  The order that a list of steps must keep: the flag is still set when the driving
  function is entered, and it is cleared only after the driving function has returned.
  The first argument says whether the driving function has returned since it was last
  entered.
\<close>

fun cleared_after_return :: "bool \<Rightarrow> isr_step list \<Rightarrow> bool" where
  "cleared_after_return returned [] = True"
| "cleared_after_return returned (Usb_tasks_entered f # xs) = (f \<and> cleared_after_return False xs)"
| "cleared_after_return returned (Usb_tasks_returned # xs) = cleared_after_return True xs"
| "cleared_after_return returned (Interrupt_flag_cleared # xs) =
     (returned \<and> cleared_after_return returned xs)"

text \<open>How often the driving function is entered in a list of steps.\<close>

definition times_entered :: "isr_step list \<Rightarrow> nat" where
  "times_entered xs = length (filter (\<lambda>x. case x of Usb_tasks_entered f \<Rightarrow> True | _ \<Rightarrow> False) xs)"

text \<open>
  What the hardware engine may do between two instructions of the foreground: nothing,
  or complete a transaction on an endpoint (for an OUT transaction, with the bytes
  received), which raises the USB interrupt.
\<close>

datatype bus_event = Bus_quiet | Transaction_done nat usb_dir "uint8_t list"

fun raise_interrupt :: "usb_config \<Rightarrow> bus_event \<Rightarrow> mcu \<Rightarrow> mcu" where
  "raise_interrupt cfg Bus_quiet m = m"
| "raise_interrupt cfg (Transaction_done ep d bytes) m =
     (let m1 = m\<lparr>USB_INTERRUPT_FLAG := True, TRANSACTION_EP := ep, TRANSACTION_DIR := d\<rparr>
      in if ep = CDC_DAT_EP cfg \<and> d = OUT
         then m1\<lparr>g_cdc_dat_ep_out := bytes @ drop (length bytes) (g_cdc_dat_ep_out m1),
                 stack := set_bd (CDC_DAT_BD_OUT cfg)
                            ((g_usb_bd_table (stack m1) (CDC_DAT_BD_OUT cfg))\<lparr>CNT := length bytes\<rparr>)
                            (stack m1)\<rparr>
         else m1)"

definition interrupt :: "usb_config \<Rightarrow> bus_event \<Rightarrow> mcu \<Rightarrow> mcu" where
  "interrupt cfg e m = snd (isr (usb_tasks cfg) (raise_interrupt cfg e m))"

text \<open>
  How a call of a function of main.c that polls a flag ends: it returns, in a state and
  with the bus events that are still to come, or it polls for ever, in the state in which
  the events were used up and the flag was found clear.
\<close>

datatype outcome = Returns mcu "bus_event list" | Spins mcu

fun final :: "outcome \<Rightarrow> mcu" where
  "final (Returns m es) = m"
| "final (Spins m) = m"

fun returns :: "outcome \<Rightarrow> bool" where
  "returns (Returns m es) = True"
| "returns (Spins m) = False"


fun wait_pkt_rcv :: "usb_config \<Rightarrow> bus_event list \<Rightarrow> mcu \<Rightarrow> outcome" where
  "wait_pkt_rcv cfg [] m =
     (if m_serial_pkt_rcv m then Returns (step (Flag_polled Serial_pkt_rcv True) m) []
      else Spins (step (Flag_polled Serial_pkt_rcv False) m))"
| "wait_pkt_rcv cfg (e # es) m =
     (if m_serial_pkt_rcv m then Returns (step (Flag_polled Serial_pkt_rcv True) m) (e # es)
      else wait_pkt_rcv cfg es (interrupt cfg e (step (Flag_polled Serial_pkt_rcv False) m)))"


text \<open>
  \<^verbatim>\<open>receive\<close>: the polling loop, then \<^verbatim>\<open>m_serial_pkt_rcv = false\<close>, then
  \<^verbatim>\<open>cdc_arm_data_ep_out()\<close>.
\<close>

definition receive :: "usb_config \<Rightarrow> mcu \<times> bus_event list \<Rightarrow> outcome" where
  "receive cfg mes =
     (case wait_pkt_rcv cfg (snd mes) (fst mes) of
        Spins m \<Rightarrow> Spins m
      | Returns m es \<Rightarrow>
          (let m1 = step (Flag_written By_receive Serial_pkt_rcv False) (m\<lparr>m_serial_pkt_rcv := False\<rparr>);
               m2 = step (Endpoint_armed (CDC_DAT_BD_OUT cfg) (CDC_DAT_EP_SIZE cfg))
                      (m1\<lparr>stack := cdc_arm_data_ep_out cfg (stack m1)\<rparr>)
           in Returns m2 es))"








text \<open>The assignments to a flag that \<^verbatim>\<open>send\<close> and \<^verbatim>\<open>receive\<close> make, among a list of steps.\<close>

fun foreground_write :: "main_step \<Rightarrow> bool" where
  "foreground_write (Flag_written w f v) = (w = By_send \<or> w = By_receive)"
| "foreground_write (Flag_polled f v) = False"
| "foreground_write (Endpoint_armed i n) = False"

definition foreground_writes :: "main_step list \<Rightarrow> main_step list" where
  "foreground_writes ws = filter foreground_write ws"

section \<open>The device-state codes and the wait of main.c\<close>




section \<open>A concrete build and a concrete state\<close>

text \<open>
  The CDC example with 8-byte EP0 packets, no ping-pong buffering, all optional requests
  compiled in and the request codes of the CDC class.
\<close>

definition cdc_build :: usb_config where
  "cdc_build =
     \<lparr>PINGPONG_MODE = PINGPONG_DIS, EP0_SIZE = 8, CDC_COM_INT = 0,
      USE_GET_LINE_CODING = True, USE_SET_LINE_CODING = True, USE_SET_CONTROL_LINE_STATE = True,
      GET_LINE_CODING = 0x21, SET_LINE_CODING = 0x20, SET_CONTROL_LINE_STATE = 0x22,
      SEND_ENCAPSULATED_COMMAND = 0x00, GET_ENCAPSULATED_RESPONSE = 0x01,
      CDC_COM_EP = 1, CDC_DAT_EP = 2, CDC_DAT_EP_SIZE = 64\<rparr>"

definition idle_bd :: bd_t where
  "idle_bd = \<lparr>owned_by_hw = False, send_stall = False, data_toggle = False, CNT = 0, ADR = 0\<rparr>"

definition idle_ep_stat :: usb_ep_stat_t where
  "idle_ep_stat = \<lparr>Data_Toggle_Val = False, Halt = False, Last_PPB = False\<rparr>"

text \<open>The stack in the Default state, holding the setup packet \<open>p\<close>, nothing armed.\<close>

definition default_state :: "ch9_setup_t \<Rightarrow> usb" where
  "default_state p =
     \<lparr>g_usb_setup = p, g_usb_ep_stat = (\<lambda>ep d. idle_ep_stat), g_usb_bd_table = (\<lambda>i. idle_bd),
      m_usb_state = STATE_DEFAULT, device_address = 0, control_stage = SETUP_STAGE,
      num_in_control_bytes = 0, num_out_control_bytes = 0, send_short = False,
      sending_from = ROM, ram_ptr = Ref_other 0, g_cdc_set_line_coding_wait = False,
      calls = []\<rparr>"

definition setup_packet :: "uint8_t \<Rightarrow> uint8_t \<Rightarrow> uint16_t \<Rightarrow> uint16_t \<Rightarrow> uint16_t \<Rightarrow> ch9_setup_t" where
  "setup_packet t r v i l = \<lparr>bmRequestType = t, bRequest = r, wValue = v, wIndex = i, wLength = l\<rparr>"

text \<open>An engine linked with the CDC class; a request is standard when its type bits say so.\<close>

definition cdc_engine :: usb_engine where
  "cdc_engine =
     \<lparr>standard_request_of =
        (\<lambda>p. if bmRequestType p \<noteq> 0x00 then None
             else if bRequest p = 5 then Some SET_ADDRESS
             else if bRequest p = 9 then Some SET_CONFIGURATION
             else None),
      class_request = cdc_class_request cdc_build,
      standard_request = (\<lambda>r s. s)\<rparr>"

text \<open>The machine of the CDC example, configured, interrupts enabled, nothing pending.\<close>

definition cdc_machine :: "bool \<Rightarrow> bool \<Rightarrow> mcu" where
  "cdc_machine sent rcv =
     \<lparr>USB_INTERRUPT_ENABLE = True, USB_INTERRUPT_FLAG = False, TRANSACTION_EP = 0,
      TRANSACTION_DIR = OUT,
      stack = (default_state (setup_packet 0 0 0 0 0))\<lparr>m_usb_state := STATE_CONFIGURED\<rparr>,
      g_cdc_dat_ep_out = replicate 64 0, g_cdc_dat_ep_in = replicate 64 0,
      g_cdc_num_data_out = 0, m_serial_pkt_sent = sent, m_serial_pkt_rcv = rcv,
      trace = []\<rparr>"

section \<open>Elementary facts about the state updates\<close>

lemma log_call_fields [simp]:
  "g_usb_setup (log_call c s) = g_usb_setup s"
  "g_usb_ep_stat (log_call c s) = g_usb_ep_stat s"
  "g_usb_bd_table (log_call c s) = g_usb_bd_table s"
  "m_usb_state (log_call c s) = m_usb_state s"
  "device_address (log_call c s) = device_address s"
  "control_stage (log_call c s) = control_stage s"
  "num_in_control_bytes (log_call c s) = num_in_control_bytes s"
  "num_out_control_bytes (log_call c s) = num_out_control_bytes s"
  "send_short (log_call c s) = send_short s"
  "sending_from (log_call c s) = sending_from s"
  "ram_ptr (log_call c s) = ram_ptr s"
  "g_cdc_set_line_coding_wait (log_call c s) = g_cdc_set_line_coding_wait s"
  "calls (log_call c s) = calls s @ [c]"
  by (simp_all add: log_call_def)

lemma set_bd_fields [simp]:
  "g_usb_setup (set_bd i v s) = g_usb_setup s"
  "g_usb_ep_stat (set_bd i v s) = g_usb_ep_stat s"
  "g_usb_bd_table (set_bd i v s) = (g_usb_bd_table s)(i := v)"
  "m_usb_state (set_bd i v s) = m_usb_state s"
  "device_address (set_bd i v s) = device_address s"
  "control_stage (set_bd i v s) = control_stage s"
  "num_in_control_bytes (set_bd i v s) = num_in_control_bytes s"
  "num_out_control_bytes (set_bd i v s) = num_out_control_bytes s"
  "send_short (set_bd i v s) = send_short s"
  "sending_from (set_bd i v s) = sending_from s"
  "ram_ptr (set_bd i v s) = ram_ptr s"
  "g_cdc_set_line_coding_wait (set_bd i v s) = g_cdc_set_line_coding_wait s"
  "calls (set_bd i v s) = calls s"
  by (simp_all add: set_bd_def)

lemma set_ep_stat_fields [simp]:
  "g_usb_setup (set_ep_stat ep d v s) = g_usb_setup s"
  "g_usb_ep_stat (set_ep_stat ep d v s) = (g_usb_ep_stat s)(ep := (g_usb_ep_stat s ep)(d := v))"
  "g_usb_bd_table (set_ep_stat ep d v s) = g_usb_bd_table s"
  "m_usb_state (set_ep_stat ep d v s) = m_usb_state s"
  "device_address (set_ep_stat ep d v s) = device_address s"
  "control_stage (set_ep_stat ep d v s) = control_stage s"
  "num_in_control_bytes (set_ep_stat ep d v s) = num_in_control_bytes s"
  "num_out_control_bytes (set_ep_stat ep d v s) = num_out_control_bytes s"
  "send_short (set_ep_stat ep d v s) = send_short s"
  "sending_from (set_ep_stat ep d v s) = sending_from s"
  "ram_ptr (set_ep_stat ep d v s) = ram_ptr s"
  "g_cdc_set_line_coding_wait (set_ep_stat ep d v s) = g_cdc_set_line_coding_wait s"
  "calls (set_ep_stat ep d v s) = calls s"
  by (simp_all add: set_ep_stat_def)

lemma arm_bd_fields [simp]:
  "g_usb_setup (arm_bd i t n s) = g_usb_setup s"
  "g_usb_ep_stat (arm_bd i t n s) = g_usb_ep_stat s"
  "m_usb_state (arm_bd i t n s) = m_usb_state s"
  "device_address (arm_bd i t n s) = device_address s"
  "control_stage (arm_bd i t n s) = control_stage s"
  "num_in_control_bytes (arm_bd i t n s) = num_in_control_bytes s"
  "num_out_control_bytes (arm_bd i t n s) = num_out_control_bytes s"
  "send_short (arm_bd i t n s) = send_short s"
  "sending_from (arm_bd i t n s) = sending_from s"
  "ram_ptr (arm_bd i t n s) = ram_ptr s"
  "g_cdc_set_line_coding_wait (arm_bd i t n s) = g_cdc_set_line_coding_wait s"
  "calls (arm_bd i t n s) = calls s"
  by (simp_all add: arm_bd_def)

lemma usb_set_ram_ptr_fields [simp]:
  "g_usb_setup (usb_set_ram_ptr p s) = g_usb_setup s"
  "g_usb_ep_stat (usb_set_ram_ptr p s) = g_usb_ep_stat s"
  "g_usb_bd_table (usb_set_ram_ptr p s) = g_usb_bd_table s"
  "m_usb_state (usb_set_ram_ptr p s) = m_usb_state s"
  "device_address (usb_set_ram_ptr p s) = device_address s"
  "control_stage (usb_set_ram_ptr p s) = control_stage s"
  "num_in_control_bytes (usb_set_ram_ptr p s) = num_in_control_bytes s"
  "num_out_control_bytes (usb_set_ram_ptr p s) = num_out_control_bytes s"
  "send_short (usb_set_ram_ptr p s) = send_short s"
  "sending_from (usb_set_ram_ptr p s) = sending_from s"
  "ram_ptr (usb_set_ram_ptr p s) = p"
  "g_cdc_set_line_coding_wait (usb_set_ram_ptr p s) = g_cdc_set_line_coding_wait s"
  "calls (usb_set_ram_ptr p s) = calls s @ [Call_usb_set_ram_ptr p]"
  by (simp_all add: usb_set_ram_ptr_def)

lemma usb_stall_ep_fields [simp]:
  "g_usb_ep_stat (usb_stall_ep i s) = g_usb_ep_stat s"
  "g_usb_bd_table (usb_stall_ep i s) =
     (g_usb_bd_table s)(i := (g_usb_bd_table s i)\<lparr>owned_by_hw := True, send_stall := True\<rparr>)"
  "m_usb_state (usb_stall_ep i s) = m_usb_state s"
  "device_address (usb_stall_ep i s) = device_address s"
  "control_stage (usb_stall_ep i s) = control_stage s"
  "calls (usb_stall_ep i s) = calls s @ [Call_usb_stall_ep i]"
  by (simp_all add: usb_stall_ep_def)

lemma usb_set_control_stage_fields [simp]:
  "g_usb_setup (usb_set_control_stage st s) = g_usb_setup s"
  "g_usb_ep_stat (usb_set_control_stage st s) = g_usb_ep_stat s"
  "g_usb_bd_table (usb_set_control_stage st s) = g_usb_bd_table s"
  "m_usb_state (usb_set_control_stage st s) = m_usb_state s"
  "device_address (usb_set_control_stage st s) = device_address s"
  "control_stage (usb_set_control_stage st s) = st"
  "num_in_control_bytes (usb_set_control_stage st s) = num_in_control_bytes s"
  "num_out_control_bytes (usb_set_control_stage st s) = num_out_control_bytes s"
  "send_short (usb_set_control_stage st s) = send_short s"
  "calls (usb_set_control_stage st s) = calls s @ [Call_usb_set_control_stage st]"
  by (simp_all add: usb_set_control_stage_def)

lemma usb_set_num_out_control_bytes_fields [simp]:
  "g_usb_setup (usb_set_num_out_control_bytes n s) = g_usb_setup s"
  "g_usb_ep_stat (usb_set_num_out_control_bytes n s) = g_usb_ep_stat s"
  "g_usb_bd_table (usb_set_num_out_control_bytes n s) = g_usb_bd_table s"
  "control_stage (usb_set_num_out_control_bytes n s) = control_stage s"
  "num_out_control_bytes (usb_set_num_out_control_bytes n s) = n"
  "calls (usb_set_num_out_control_bytes n s) = calls s @ [Call_usb_set_num_out_control_bytes n]"
  by (simp_all add: usb_set_num_out_control_bytes_def)

lemma usb_arm_ep0_in_fields [simp]:
  "g_usb_setup (usb_arm_ep0_in cfg n s) = g_usb_setup s"
  "g_usb_ep_stat (usb_arm_ep0_in cfg n s) = g_usb_ep_stat s"
  "m_usb_state (usb_arm_ep0_in cfg n s) = m_usb_state s"
  "device_address (usb_arm_ep0_in cfg n s) = device_address s"
  "control_stage (usb_arm_ep0_in cfg n s) = control_stage s"
  "num_in_control_bytes (usb_arm_ep0_in cfg n s) = num_in_control_bytes s"
  "num_out_control_bytes (usb_arm_ep0_in cfg n s) = num_out_control_bytes s"
  "send_short (usb_arm_ep0_in cfg n s) = send_short s"
  "calls (usb_arm_ep0_in cfg n s) = calls s @ [Call_usb_arm_ep0_in (ep0_in_next_bd cfg s) n]"
  by (simp_all add: usb_arm_ep0_in_def)

lemma usb_arm_in_status_fields [simp]:
  "g_usb_setup (usb_arm_in_status cfg s) = g_usb_setup s"
  "g_usb_ep_stat (usb_arm_in_status cfg s) = g_usb_ep_stat s"
  "m_usb_state (usb_arm_in_status cfg s) = m_usb_state s"
  "device_address (usb_arm_in_status cfg s) = device_address s"
  "control_stage (usb_arm_in_status cfg s) = control_stage s"
  "num_in_control_bytes (usb_arm_in_status cfg s) = num_in_control_bytes s"
  "num_out_control_bytes (usb_arm_in_status cfg s) = num_out_control_bytes s"
  "send_short (usb_arm_in_status cfg s) = send_short s"
  "calls (usb_arm_in_status cfg s) = calls s @ [Call_usb_arm_in_status]"
  by (simp_all add: usb_arm_in_status_def)

lemma usb_arm_endpoint_fields [simp]:
  "g_usb_ep_stat (usb_arm_endpoint i e n s) = g_usb_ep_stat s"
  "g_usb_bd_table (usb_arm_endpoint i e n s) =
     (g_usb_bd_table s)(i := (g_usb_bd_table s i)\<lparr>owned_by_hw := True, send_stall := False,
        data_toggle := Data_Toggle_Val (g_usb_ep_stat s (fst e) (snd e)), CNT := n\<rparr>)"
  "m_usb_state (usb_arm_endpoint i e n s) = m_usb_state s"
  "control_stage (usb_arm_endpoint i e n s) = control_stage s"
  "calls (usb_arm_endpoint i e n s) = calls s @ [Call_usb_arm_endpoint i n]"
  by (simp_all add: usb_arm_endpoint_def arm_bd_def)

lemma usb_setup_in_control_transfer_fields [simp]:
  "g_usb_setup (usb_setup_in_control_transfer cfg rr ba rl s) = g_usb_setup s"
  "g_usb_ep_stat (usb_setup_in_control_transfer cfg rr ba rl s) = g_usb_ep_stat s"
  "g_usb_bd_table (usb_setup_in_control_transfer cfg rr ba rl s) = g_usb_bd_table s"
  "m_usb_state (usb_setup_in_control_transfer cfg rr ba rl s) = m_usb_state s"
  "device_address (usb_setup_in_control_transfer cfg rr ba rl s) = device_address s"
  "control_stage (usb_setup_in_control_transfer cfg rr ba rl s) = control_stage s"
  "num_in_control_bytes (usb_setup_in_control_transfer cfg rr ba rl s) = min ba rl"
  "num_out_control_bytes (usb_setup_in_control_transfer cfg rr ba rl s) = num_out_control_bytes s"
  "send_short (usb_setup_in_control_transfer cfg rr ba rl s) =
     (min ba rl \<noteq> 0 \<and> min ba rl mod EP0_SIZE cfg = 0 \<and> min ba rl < rl)"
  "calls (usb_setup_in_control_transfer cfg rr ba rl s) =
     calls s @ [Call_usb_setup_in_control_transfer rr ba rl]"
  by (simp_all add: usb_setup_in_control_transfer_def Let_def)

lemma usb_in_control_transfer_fields [simp]:
  "g_usb_setup (usb_in_control_transfer cfg s) = g_usb_setup s"
  "g_usb_ep_stat (usb_in_control_transfer cfg s) = g_usb_ep_stat s"
  "m_usb_state (usb_in_control_transfer cfg s) = m_usb_state s"
  "device_address (usb_in_control_transfer cfg s) = device_address s"
  "control_stage (usb_in_control_transfer cfg s) = control_stage s"
  "num_in_control_bytes (usb_in_control_transfer cfg s) =
     num_in_control_bytes s - min (num_in_control_bytes s) (EP0_SIZE cfg)"
  "num_out_control_bytes (usb_in_control_transfer cfg s) = num_out_control_bytes s"
  "send_short (usb_in_control_transfer cfg s) = send_short s"
  "calls (usb_in_control_transfer cfg s) =
     calls s @ [Call_usb_in_control_transfer,
                Call_usb_arm_ep0_in (ep0_in_next_bd cfg s) (min (num_in_control_bytes s) (EP0_SIZE cfg))]"
  by (simp_all add: usb_in_control_transfer_def Let_def ep0_in_next_bd_def)

lemma abort_transfer_fields [simp]:
  "g_usb_setup (abort_transfer s) = g_usb_setup s"
  "g_usb_ep_stat (abort_transfer s) = g_usb_ep_stat s"
  "g_usb_bd_table (abort_transfer s) = g_usb_bd_table s"
  "m_usb_state (abort_transfer s) = m_usb_state s"
  "device_address (abort_transfer s) = device_address s"
  "control_stage (abort_transfer s) = SETUP_STAGE"
  "calls (abort_transfer s) = calls s"
  by (simp_all add: abort_transfer_def)

lemma usb_transaction_complete_fields [simp]:
  "g_usb_setup (usb_transaction_complete cfg ep d s) = g_usb_setup s"
  "m_usb_state (usb_transaction_complete cfg ep d s) = m_usb_state s"
  "device_address (usb_transaction_complete cfg ep d s) = device_address s"
  "control_stage (usb_transaction_complete cfg ep d s) = control_stage s"
  "num_in_control_bytes (usb_transaction_complete cfg ep d s) = num_in_control_bytes s"
  "num_out_control_bytes (usb_transaction_complete cfg ep d s) = num_out_control_bytes s"
  "send_short (usb_transaction_complete cfg ep d s) = send_short s"
  "calls (usb_transaction_complete cfg ep d s) = calls s"
  by (simp_all add: usb_transaction_complete_def Let_def)

lemma usb_arm_out_status_fields [simp]:
  "g_usb_setup (usb_arm_out_status cfg s) = g_usb_setup s"
  "m_usb_state (usb_arm_out_status cfg s) = m_usb_state s"
  "device_address (usb_arm_out_status cfg s) = device_address s"
  "control_stage (usb_arm_out_status cfg s) = control_stage s"
  "calls (usb_arm_out_status cfg s) = calls s"
  by (simp_all add: usb_arm_out_status_def)

lemma cdc_class_request_ep_stat:
  "g_usb_ep_stat (snd (cdc_class_request cfg s)) = g_usb_ep_stat s"
  by (simp add: cdc_class_request_def case_GET_LINE_CODING_def case_SET_LINE_CODING_def
        case_SET_CONTROL_LINE_STATE_def case_SEND_ENCAPSULATED_COMMAND_def
        case_GET_ENCAPSULATED_RESPONSE_def Let_def cdc_set_control_line_state_def)

lemma case_SET_LINE_CODING_rejected:
  "fst (case_SET_LINE_CODING cfg s) = False \<Longrightarrow>
   snd (case_SET_LINE_CODING cfg s) = usb_set_ram_ptr Ref_g_cdc_set_line_coding s"
  by (simp add: case_SET_LINE_CODING_def Let_def split: if_splits)

lemma case_SET_CONTROL_LINE_STATE_rejected:
  "fst (case_SET_CONTROL_LINE_STATE cfg s) = False \<Longrightarrow>
   snd (case_SET_CONTROL_LINE_STATE cfg s) = s"
  by (simp add: case_SET_CONTROL_LINE_STATE_def Let_def split: if_splits)

lemma case_SEND_ENCAPSULATED_COMMAND_rejected:
  "fst (case_SEND_ENCAPSULATED_COMMAND cfg s) = False \<Longrightarrow>
   snd (case_SEND_ENCAPSULATED_COMMAND cfg s) = usb_set_ram_ptr Ref_dummy_buffer s"
  by (simp add: case_SEND_ENCAPSULATED_COMMAND_def Let_def split: if_splits)

lemma case_GET_accepted [simp]:
  "fst (case_GET_LINE_CODING cfg s) = True"
  "fst (case_GET_ENCAPSULATED_RESPONSE cfg s) = True"
  by (simp_all add: case_GET_LINE_CODING_def case_GET_ENCAPSULATED_RESPONSE_def Let_def)

lemma cdc_class_request_rejected_state:
  assumes "fst (cdc_class_request cfg s) = False"
  shows "snd (cdc_class_request cfg s) = s
       \<or> snd (cdc_class_request cfg s) = usb_set_ram_ptr Ref_g_cdc_set_line_coding s
       \<or> snd (cdc_class_request cfg s) = usb_set_ram_ptr Ref_dummy_buffer s"
proof -
  have "cdc_class_request cfg s = case_GET_LINE_CODING cfg s
      \<or> cdc_class_request cfg s = case_SET_LINE_CODING cfg s
      \<or> cdc_class_request cfg s = case_SET_CONTROL_LINE_STATE cfg s
      \<or> cdc_class_request cfg s = case_SEND_ENCAPSULATED_COMMAND cfg s
      \<or> cdc_class_request cfg s = case_GET_ENCAPSULATED_RESPONSE cfg s
      \<or> cdc_class_request cfg s = (False, s)"
    by (simp add: cdc_class_request_def)
  then consider (a) "cdc_class_request cfg s = case_GET_LINE_CODING cfg s"
    | (b) "cdc_class_request cfg s = case_SET_LINE_CODING cfg s"
    | (c) "cdc_class_request cfg s = case_SET_CONTROL_LINE_STATE cfg s"
    | (d) "cdc_class_request cfg s = case_SEND_ENCAPSULATED_COMMAND cfg s"
    | (e) "cdc_class_request cfg s = case_GET_ENCAPSULATED_RESPONSE cfg s"
    | (f) "cdc_class_request cfg s = (False, s)"
    by blast
  then show ?thesis
  proof cases
    case a with assms show ?thesis by simp
  next
    case b with assms show ?thesis by (simp add: case_SET_LINE_CODING_rejected)
  next
    case c with assms show ?thesis by (simp add: case_SET_CONTROL_LINE_STATE_rejected)
  next
    case d with assms show ?thesis by (simp add: case_SEND_ENCAPSULATED_COMMAND_rejected)
  next
    case e with assms show ?thesis by simp
  next
    case f then show ?thesis by simp
  qed
qed

lemma stage_codes_distinct [simp]:
  "DATA_IN_STAGE \<noteq> STATUS_IN_STAGE" "STATUS_IN_STAGE \<noteq> DATA_IN_STAGE"
  "DATA_IN_STAGE \<noteq> STATUS_OUT_STAGE" "STATUS_OUT_STAGE \<noteq> DATA_IN_STAGE"
  "DATA_IN_STAGE \<noteq> SETUP_STAGE" "SETUP_STAGE \<noteq> DATA_IN_STAGE"
  "STATUS_IN_STAGE \<noteq> SETUP_STAGE" "SETUP_STAGE \<noteq> STATUS_IN_STAGE"
  by (simp_all add: DATA_IN_STAGE_def STATUS_IN_STAGE_def STATUS_OUT_STAGE_def SETUP_STAGE_def)

section \<open>The dispatch of \<^verbatim>\<open>cdc_class_request\<close>\<close>

lemma dispatch_SET_LINE_CODING:
  assumes "switch_compiles cfg" and "bRequest (g_usb_setup s) = SET_LINE_CODING cfg"
  shows "cdc_class_request cfg s =
           (if USE_SET_LINE_CODING cfg then case_SET_LINE_CODING cfg s else (False, s))"
proof -
  have "SET_LINE_CODING cfg \<noteq> GET_LINE_CODING cfg"
       "SET_LINE_CODING cfg \<noteq> SET_CONTROL_LINE_STATE cfg"
       "SET_LINE_CODING cfg \<noteq> SEND_ENCAPSULATED_COMMAND cfg"
       "SET_LINE_CODING cfg \<noteq> GET_ENCAPSULATED_RESPONSE cfg"
    using assms(1) by (auto simp: switch_compiles_def cdc_request_codes_def)
  then show ?thesis
    unfolding cdc_class_request_def assms(2) by simp
qed

lemma dispatch_SET_CONTROL_LINE_STATE:
  assumes "switch_compiles cfg" and "bRequest (g_usb_setup s) = SET_CONTROL_LINE_STATE cfg"
  shows "cdc_class_request cfg s =
           (if USE_SET_CONTROL_LINE_STATE cfg then case_SET_CONTROL_LINE_STATE cfg s else (False, s))"
proof -
  have "SET_CONTROL_LINE_STATE cfg \<noteq> GET_LINE_CODING cfg"
       "SET_CONTROL_LINE_STATE cfg \<noteq> SET_LINE_CODING cfg"
       "SET_CONTROL_LINE_STATE cfg \<noteq> SEND_ENCAPSULATED_COMMAND cfg"
       "SET_CONTROL_LINE_STATE cfg \<noteq> GET_ENCAPSULATED_RESPONSE cfg"
    using assms(1) by (auto simp: switch_compiles_def cdc_request_codes_def)
  then show ?thesis
    unfolding cdc_class_request_def assms(2) by simp
qed

lemma dispatch_SEND_ENCAPSULATED_COMMAND:
  assumes "switch_compiles cfg" and "bRequest (g_usb_setup s) = SEND_ENCAPSULATED_COMMAND cfg"
  shows "cdc_class_request cfg s = case_SEND_ENCAPSULATED_COMMAND cfg s"
proof -
  have "SEND_ENCAPSULATED_COMMAND cfg \<noteq> GET_LINE_CODING cfg"
       "SEND_ENCAPSULATED_COMMAND cfg \<noteq> SET_LINE_CODING cfg"
       "SEND_ENCAPSULATED_COMMAND cfg \<noteq> SET_CONTROL_LINE_STATE cfg"
    using assms(1) by (auto simp: switch_compiles_def cdc_request_codes_def)
  then show ?thesis
    unfolding cdc_class_request_def assms(2) by simp
qed

lemma cdc_build_compiles: "switch_compiles cdc_build"
  by (simp add: switch_compiles_def cdc_request_codes_def cdc_build_def)

lemma new_calls_same [simp]: "new_calls s s = []"
  by (simp add: new_calls_def)

lemma new_calls_usb_set_ram_ptr [simp]:
  "new_calls s (usb_set_ram_ptr p s) = [Call_usb_set_ram_ptr p]"
  by (simp add: new_calls_def)

section \<open>The packets of the DATA_IN stage\<close>

lemma ep0_in_packets_append:
  "ep0_in_packets (xs @ ys) = ep0_in_packets xs @ ep0_in_packets ys"
  by (induction xs rule: ep0_in_packets.induct) simp_all

lemma chunks_0 [simp]: "chunks mps 0 = []"
  by (simp add: chunks_def)

lemma chunks_step:
  assumes "0 < mps" and "0 < r"
  shows "chunks mps r = min r mps # chunks mps (r - min r mps)"
proof (cases "mps \<le> r")
  case True
  then have d: "r div mps = Suc ((r - mps) div mps)"
    using assms(1) by (simp add: le_div_geq)
  have m: "(r - mps) mod mps = r mod mps"
    using True by (simp add: le_mod_geq)
  from True d m show ?thesis
    by (simp add: chunks_def min_def)
next
  case False
  then have "r < mps" by simp
  with assms show ?thesis
    by (simp add: chunks_def min_def)
qed

lemma ceil_div:
  assumes "0 < (m::nat)"
  shows "(r + m - 1) div m = r div m + (if r mod m = 0 then 0 else 1)"
proof -
  obtain q k where r: "r = q * m + k" and k: "k < m"
    using assms by (metis div_mult_mod_eq mod_less_divisor)
  have dq: "r div m = q" and mk: "r mod m = k"
    using r k by simp_all
  show ?thesis
  proof (cases "k = 0")
    case True
    have "(m - 1 + q * m) div m = (m - 1) div m + q"
      using assms by (subst div_mult_self1) simp_all
    moreover have "(m - 1) div m = 0"
      using assms by simp
    moreover have "r + m - 1 = m - 1 + q * m"
      using assms r True by simp
    ultimately show ?thesis using True dq mk by simp
  next
    case False
    have e: "r + m - 1 = (k - 1) + Suc q * m"
      using False r by simp
    have "((k - 1) + Suc q * m) div m = (k - 1) div m + Suc q"
      using assms by (subst div_mult_self1) simp_all
    moreover have "(k - 1) div m = 0"
      using k by simp
    ultimately show ?thesis
      using e dq mk False by simp
  qed
qed

lemma length_chunks: "0 < mps \<Longrightarrow> length (chunks mps r) = (r + mps - 1) div mps"
  using ceil_div [of mps r] by (simp add: chunks_def)

lemma sum_list_chunks: "sum_list (chunks mps r) = r"
  using div_mult_mod_eq [of r mps] by (auto simp: chunks_def sum_list_replicate)

lemma chunks_le: "0 < mps \<Longrightarrow> p \<in> set (chunks mps r) \<Longrightarrow> p \<le> mps"
  by (auto simp: chunks_def split: if_splits intro: less_imp_le)

text \<open>One completed IN transaction in the DATA_IN stage, in its three cases.\<close>

lemma ep0_in_complete_next_chunk:
  assumes "control_stage t = DATA_IN_STAGE" and "num_in_control_bytes t \<noteq> 0"
  shows "control_stage (ep0_in_complete cfg eng t) = DATA_IN_STAGE"
    and "num_in_control_bytes (ep0_in_complete cfg eng t)
           = num_in_control_bytes t - min (num_in_control_bytes t) (EP0_SIZE cfg)"
    and "send_short (ep0_in_complete cfg eng t) = send_short t"
    and "ep0_in_packets (calls (ep0_in_complete cfg eng t))
           = ep0_in_packets (calls t) @ [min (num_in_control_bytes t) (EP0_SIZE cfg)]"
  using assms by (simp_all add: ep0_in_complete_def Let_def ep0_in_packets_append)

lemma ep0_in_complete_closing_packet:
  assumes "control_stage t = DATA_IN_STAGE" and "num_in_control_bytes t = 0" and "send_short t"
  shows "control_stage (ep0_in_complete cfg eng t) = DATA_IN_STAGE"
    and "num_in_control_bytes (ep0_in_complete cfg eng t) = 0"
    and "send_short (ep0_in_complete cfg eng t) = False"
    and "ep0_in_packets (calls (ep0_in_complete cfg eng t)) = ep0_in_packets (calls t) @ [0]"
  using assms by (simp_all add: ep0_in_complete_def Let_def ep0_in_packets_append)

lemma ep0_in_complete_to_status:
  assumes "control_stage t = DATA_IN_STAGE" and "num_in_control_bytes t = 0" and "\<not> send_short t"
  shows "control_stage (ep0_in_complete cfg eng t) = STATUS_OUT_STAGE"
    and "ep0_in_packets (calls (ep0_in_complete cfg eng t)) = ep0_in_packets (calls t)"
  using assms by (simp_all add: ep0_in_complete_def Let_def)

lemma run_data_in_done:
  "control_stage t \<noteq> DATA_IN_STAGE \<Longrightarrow> run_data_in k cfg eng t = Some t"
  by (cases k) simp_all

lemma run_data_in_packets:
  assumes "0 < EP0_SIZE cfg"
  shows "control_stage t = DATA_IN_STAGE \<Longrightarrow>
         num_in_control_bytes t + (if send_short t then 1 else 0) < k \<Longrightarrow>
         \<exists>t'. run_data_in k cfg eng t = Some t'
             \<and> control_stage t' = STATUS_OUT_STAGE
             \<and> ep0_in_packets (calls t')
                 = ep0_in_packets (calls t) @ chunks (EP0_SIZE cfg) (num_in_control_bytes t)
                     @ (if send_short t then [0] else [])"
proof (induction k arbitrary: t)
  case 0
  then show ?case by simp
next
  case (Suc k)
  let ?u = "ep0_in_complete cfg eng t"
  have run: "run_data_in (Suc k) cfg eng t = run_data_in k cfg eng ?u"
    using Suc.prems(1) by simp
  show ?case
  proof (cases "num_in_control_bytes t = 0")
    case False
    note more = ep0_in_complete_next_chunk [OF Suc.prems(1) False, of cfg eng]
    have pos: "0 < min (num_in_control_bytes t) (EP0_SIZE cfg)"
      using False assms by simp
    have fuel: "num_in_control_bytes ?u + (if send_short ?u then 1 else 0) < k"
      using Suc.prems(2) pos more(2,3) by (simp split: if_splits)
    from Suc.IH [OF more(1) fuel] obtain t' where t':
      "run_data_in k cfg eng ?u = Some t'" "control_stage t' = STATUS_OUT_STAGE"
      "ep0_in_packets (calls t')
         = ep0_in_packets (calls ?u) @ chunks (EP0_SIZE cfg) (num_in_control_bytes ?u)
             @ (if send_short ?u then [0] else [])"
      by blast
    have "chunks (EP0_SIZE cfg) (num_in_control_bytes t)
            = min (num_in_control_bytes t) (EP0_SIZE cfg)
              # chunks (EP0_SIZE cfg) (num_in_control_bytes ?u)"
      using chunks_step [OF assms, of "num_in_control_bytes t"] False more(2) by simp
    with t' more run show ?thesis by simp
  next
    case True
    show ?thesis
    proof (cases "send_short t")
      case short: True
      note zlp = ep0_in_complete_closing_packet [OF Suc.prems(1) True short, of cfg eng]
      have fuel: "num_in_control_bytes ?u + (if send_short ?u then 1 else 0) < k"
        using Suc.prems(2) True short zlp(2,3) by simp
      from Suc.IH [OF zlp(1) fuel] obtain t' where t':
        "run_data_in k cfg eng ?u = Some t'" "control_stage t' = STATUS_OUT_STAGE"
        "ep0_in_packets (calls t')
           = ep0_in_packets (calls ?u) @ chunks (EP0_SIZE cfg) (num_in_control_bytes ?u)
               @ (if send_short ?u then [0] else [])"
        by blast
      with zlp run True short show ?thesis by simp
    next
      case False
      note fin = ep0_in_complete_to_status [OF Suc.prems(1) True False, of cfg eng]
      have "run_data_in k cfg eng ?u = Some ?u"
        using fin(1) by (simp add: run_data_in_done)
      with fin run True False show ?thesis by simp
    qed
  qed
qed

text \<open>The packets of the whole DATA_IN stage, in closed form.\<close>

lemma data_in_transactions_closed_form:
  assumes "0 < EP0_SIZE cfg"
  shows "data_in_transactions cfg eng rr ba rl s =
           Some (if min ba rl = 0 then [0]
                 else chunks (EP0_SIZE cfg) (min ba rl)
                      @ (if min ba rl mod EP0_SIZE cfg = 0 \<and> min ba rl < rl then [0] else []))"
proof -
  let ?n = "min ba rl"
  let ?m = "EP0_SIZE cfg"
  let ?t = "start_in_control_transfer cfg rr ba rl s"
  have st: "control_stage ?t = DATA_IN_STAGE"
    and rem: "num_in_control_bytes ?t = ?n - min ?n ?m"
    and sh: "send_short ?t = (?n \<noteq> 0 \<and> ?n mod ?m = 0 \<and> ?n < rl)"
    and pk: "ep0_in_packets (calls ?t) = ep0_in_packets (calls s) @ [min ?n ?m]"
    by (simp_all add: start_in_control_transfer_def ep0_in_packets_append)
  have "?n - min ?n ?m \<le> ?n"
    by (rule diff_le_self)
  then have fuel: "num_in_control_bytes ?t + (if send_short ?t then 1 else 0) < ?n + 2"
    unfolding rem by (cases "send_short ?t") simp_all
  from run_data_in_packets [OF assms st fuel, of eng] obtain t' where t':
    "run_data_in (?n + 2) cfg eng ?t = Some t'"
    "ep0_in_packets (calls t')
       = ep0_in_packets (calls ?t) @ chunks ?m (num_in_control_bytes ?t)
           @ (if send_short ?t then [0] else [])"
    by blast
  have all: "drop (length (ep0_in_packets (calls s))) (ep0_in_packets (calls t'))
           = min ?n ?m # chunks ?m (?n - min ?n ?m) @ (if send_short ?t then [0] else [])"
    unfolding t'(2) pk rem by simp
  show ?thesis
  proof (cases "?n = 0")
    case True
    with all sh t'(1) show ?thesis
      by (simp add: data_in_transactions_def)
  next
    case False
    then have "chunks ?m ?n = min ?n ?m # chunks ?m (?n - min ?n ?m)"
      using chunks_step [OF assms, of ?n] by simp
    with all sh t'(1) False show ?thesis
      by (simp add: data_in_transactions_def)
  qed
qed

section \<open>The transaction count of an IN control transfer\<close>

text \<open>
  C1. \<^verbatim>\<open>usb_setup_in_control_transfer(ram_rom, bytes_available, requested_length)\<close> computes
  the number of bytes to send as \<open>n = min bytes_available requested_length\<close>. The DATA_IN
  stage that follows comes to its end, and the IN transactions it produces are: when \<open>n\<close>
  is a positive multiple of the EP0 max-packet-size and \<open>n < requested_length\<close>,
  \<open>n div max_packet_size + 1\<close> of them, the last one zero-length; otherwise the ceiling of
  \<open>n / max_packet_size\<close>, and exactly one zero-length packet when \<open>n = 0\<close>. Together they
  carry the \<open>n\<close> bytes.
\<close>

theorem in_control_transfer_transaction_count:
  assumes "0 < EP0_SIZE cfg"
  shows "num_in_control_bytes (usb_setup_in_control_transfer cfg rr ba rl s) = min ba rl
       \<and> (\<exists>pk. data_in_transactions cfg eng rr ba rl s = Some pk
            \<and> length pk = spec_transaction_count (EP0_SIZE cfg) (min ba rl) rl
            \<and> sum_list pk = min ba rl
            \<and> (0 < min ba rl \<and> min ba rl mod EP0_SIZE cfg = 0 \<and> min ba rl < rl \<longrightarrow> last pk = 0)
            \<and> (min ba rl = 0 \<longrightarrow> pk = [0]))"
proof -
  define n where "n = min ba rl"
  define m where "m = EP0_SIZE cfg"
  have mpos: "0 < m"
    using assms by (simp add: m_def)
  have cf: "data_in_transactions cfg eng rr ba rl s =
              Some (if n = 0 then [0]
                    else chunks m n @ (if n mod m = 0 \<and> n < rl then [0] else []))"
    unfolding n_def m_def by (rule data_in_transactions_closed_form [OF assms])
  have "\<exists>pk. data_in_transactions cfg eng rr ba rl s = Some pk
            \<and> length pk = spec_transaction_count m n rl
            \<and> sum_list pk = n
            \<and> (0 < n \<and> n mod m = 0 \<and> n < rl \<longrightarrow> last pk = 0)
            \<and> (n = 0 \<longrightarrow> pk = [0])"
  proof (cases "n = 0")
    case True
    with cf show ?thesis
      by (simp add: spec_transaction_count_def)
  next
    case False
    show ?thesis
    proof (cases "n mod m = 0 \<and> n < rl")
      case True
      have "(n + m - 1) div m = n div m"
        using ceil_div [OF mpos, of n] True by simp
      then have "length (chunks m n @ [0]) = spec_transaction_count m n rl"
        using True False by (simp add: spec_transaction_count_def length_chunks [OF mpos])
      moreover have "sum_list (chunks m n @ [0]) = n"
        by (simp add: sum_list_chunks)
      moreover have "data_in_transactions cfg eng rr ba rl s = Some (chunks m n @ [0])"
        using cf True False by simp
      ultimately show ?thesis
        using False by (intro exI [of _ "chunks m n @ [0]"]) simp
    next
      case plain: False
      have "length (chunks m n) = spec_transaction_count m n rl"
        using plain False by (auto simp: spec_transaction_count_def length_chunks [OF mpos])
      moreover have "sum_list (chunks m n) = n"
        by (simp add: sum_list_chunks)
      moreover have "data_in_transactions cfg eng rr ba rl s = Some (chunks m n)"
        using cf plain False by auto
      ultimately show ?thesis
        using plain False by (intro exI [of _ "chunks m n"]) auto
    qed
  qed
  then show ?thesis
    unfolding n_def m_def by simp
qed

theorem in_control_transfer_transaction_count_witness:
  "0 < EP0_SIZE cdc_build
   \<and> num_in_control_bytes
       (usb_setup_in_control_transfer cdc_build RAM 16 64 (default_state (setup_packet 0xA1 0x01 0 0 64)))
       = 16
   \<and> (\<exists>pk. data_in_transactions cdc_build cdc_engine RAM 16 64
              (default_state (setup_packet 0xA1 0x01 0 0 64)) = Some pk
          \<and> length pk = 3 \<and> sum_list pk = 16 \<and> last pk = 0)
   \<and> data_in_transactions cdc_build cdc_engine RAM 0 64
         (default_state (setup_packet 0xA1 0x01 0 0 64)) = Some [0]"
proof -
  have p: "0 < EP0_SIZE cdc_build"
    by (simp add: cdc_build_def)
  have c: "spec_transaction_count (EP0_SIZE cdc_build) 16 64 = 3"
    by (simp add: spec_transaction_count_def cdc_build_def)
  have m: "(16::nat) mod EP0_SIZE cdc_build = 0"
    by (simp add: cdc_build_def)
  from in_control_transfer_transaction_count
         [OF p, of RAM 16 64 "default_state (setup_packet 0xA1 0x01 0 0 64)" cdc_engine]
  have short: "num_in_control_bytes
       (usb_setup_in_control_transfer cdc_build RAM 16 64 (default_state (setup_packet 0xA1 0x01 0 0 64)))
       = 16
     \<and> (\<exists>pk. data_in_transactions cdc_build cdc_engine RAM 16 64
              (default_state (setup_packet 0xA1 0x01 0 0 64)) = Some pk
          \<and> length pk = 3 \<and> sum_list pk = 16 \<and> last pk = 0)"
    by (simp add: c m)
  from in_control_transfer_transaction_count
         [OF p, of RAM 0 64 "default_state (setup_packet 0xA1 0x01 0 0 64)" cdc_engine]
  have none: "data_in_transactions cdc_build cdc_engine RAM 0 64
         (default_state (setup_packet 0xA1 0x01 0 0 64)) = Some [0]"
    by auto
  from p short none show ?thesis by simp
qed

text \<open>
  The packets at \<^verbatim>\<open>EP0_SIZE\<close> 8: 18 bytes of 64 requested, 16 bytes of 64 requested (a
  closing zero-length packet), 16 bytes of 16 requested (none), and no bytes at all.
\<close>

lemma data_in_transactions_examples:
  "data_in_transactions cdc_build eng RAM 18 64 s = Some [8, 8, 2]"
  "data_in_transactions cdc_build eng RAM 16 64 s = Some [8, 8, 0]"
  "data_in_transactions cdc_build eng RAM 16 16 s = Some [8, 8]"
  "data_in_transactions cdc_build eng RAM 0 64 s = Some [0]"
proof -
  have p: "0 < EP0_SIZE cdc_build" and e: "EP0_SIZE cdc_build = 8"
    by (simp_all add: cdc_build_def)
  have r: "replicate 2 (8::nat) = [8, 8]"
    by (simp add: numeral_2_eq_2)
  show "data_in_transactions cdc_build eng RAM 18 64 s = Some [8, 8, 2]"
       "data_in_transactions cdc_build eng RAM 16 64 s = Some [8, 8, 0]"
       "data_in_transactions cdc_build eng RAM 16 16 s = Some [8, 8]"
       "data_in_transactions cdc_build eng RAM 0 64 s = Some [0]"
    by (simp_all add: data_in_transactions_closed_form [OF p] e chunks_def r)
qed

section \<open>The request error\<close>

text \<open>
  C2. For a SETUP request that is not a standard request and that the class-request hook
  does not claim (it returns false), the engine signals a request error: the control IN
  endpoint is stalled, under \<^verbatim>\<open>PINGPONG_ALL_EP\<close> both the even and the odd EP0 IN buffer
  descriptor, and the endpoint status, the data toggles in it, is what the hook left; with
  \<^verbatim>\<open>cdc_class_request\<close> as the hook it is what it was before the request.
\<close>

theorem request_error_on_unclaimed_request:
  assumes "standard_request_of eng (g_usb_setup s) = None"
    and "fst (class_request eng (abort_transfer s)) = False"
  shows "process_setup cfg eng s = usb_request_error cfg (snd (class_request eng (abort_transfer s)))
       \<and> (PINGPONG_MODE cfg \<noteq> PINGPONG_ALL_EP \<longrightarrow>
            send_stall (g_usb_bd_table (process_setup cfg eng s) BD0_IN)
            \<and> owned_by_hw (g_usb_bd_table (process_setup cfg eng s) BD0_IN))
       \<and> (PINGPONG_MODE cfg = PINGPONG_ALL_EP \<longrightarrow>
            send_stall (g_usb_bd_table (process_setup cfg eng s) BD0_IN_EVEN)
            \<and> owned_by_hw (g_usb_bd_table (process_setup cfg eng s) BD0_IN_EVEN)
            \<and> send_stall (g_usb_bd_table (process_setup cfg eng s) BD0_IN_ODD)
            \<and> owned_by_hw (g_usb_bd_table (process_setup cfg eng s) BD0_IN_ODD))
       \<and> g_usb_ep_stat (process_setup cfg eng s)
           = g_usb_ep_stat (snd (class_request eng (abort_transfer s)))
       \<and> (class_request eng = cdc_class_request cfg \<longrightarrow>
            g_usb_ep_stat (process_setup cfg eng s) = g_usb_ep_stat s)"
proof -
  obtain h where h: "class_request eng (abort_transfer s) = (False, h)"
    using assms(2) by (cases "class_request eng (abort_transfer s)") auto
  have r: "process_setup cfg eng s = usb_request_error cfg h"
    using assms(1) h by (simp add: process_setup_def Let_def)
  have e: "g_usb_ep_stat (usb_request_error cfg h) = g_usb_ep_stat h"
    by (simp add: usb_request_error_def)
  have c: "class_request eng = cdc_class_request cfg \<Longrightarrow> g_usb_ep_stat h = g_usb_ep_stat s"
    using h cdc_class_request_ep_stat [of cfg "abort_transfer s"] by simp
  have one: "PINGPONG_MODE cfg \<noteq> PINGPONG_ALL_EP \<Longrightarrow>
      send_stall (g_usb_bd_table (usb_request_error cfg h) BD0_IN)
      \<and> owned_by_hw (g_usb_bd_table (usb_request_error cfg h) BD0_IN)"
    by (simp add: usb_request_error_def)
  have both: "PINGPONG_MODE cfg = PINGPONG_ALL_EP \<Longrightarrow>
      send_stall (g_usb_bd_table (usb_request_error cfg h) BD0_IN_EVEN)
      \<and> owned_by_hw (g_usb_bd_table (usb_request_error cfg h) BD0_IN_EVEN)
      \<and> send_stall (g_usb_bd_table (usb_request_error cfg h) BD0_IN_ODD)
      \<and> owned_by_hw (g_usb_bd_table (usb_request_error cfg h) BD0_IN_ODD)"
    by (simp add: usb_request_error_def BD0_IN_EVEN_def BD0_IN_ODD_def EVEN_def ODD_def)
  show ?thesis
    using r e c one both h by simp
qed

theorem request_error_on_unclaimed_request_witness:
  "standard_request_of cdc_engine (g_usb_setup (default_state (setup_packet 0x21 0x55 0 0 0))) = None
   \<and> fst (class_request cdc_engine (abort_transfer (default_state (setup_packet 0x21 0x55 0 0 0)))) = False
   \<and> send_stall (g_usb_bd_table
        (process_setup cdc_build cdc_engine (default_state (setup_packet 0x21 0x55 0 0 0))) BD0_IN)
   \<and> owned_by_hw (g_usb_bd_table
        (process_setup cdc_build cdc_engine (default_state (setup_packet 0x21 0x55 0 0 0))) BD0_IN)
   \<and> g_usb_ep_stat (process_setup cdc_build cdc_engine (default_state (setup_packet 0x21 0x55 0 0 0)))
       = g_usb_ep_stat (default_state (setup_packet 0x21 0x55 0 0 0))
   \<and> send_stall (g_usb_bd_table
        (process_setup (cdc_build\<lparr>PINGPONG_MODE := PINGPONG_ALL_EP\<rparr>) cdc_engine
           (default_state (setup_packet 0x21 0x55 0 0 0))) BD0_IN_EVEN)
   \<and> send_stall (g_usb_bd_table
        (process_setup (cdc_build\<lparr>PINGPONG_MODE := PINGPONG_ALL_EP\<rparr>) cdc_engine
           (default_state (setup_packet 0x21 0x55 0 0 0))) BD0_IN_ODD)"
proof -
  let ?s = "default_state (setup_packet 0x21 0x55 0 0 0)"
  let ?all = "cdc_build\<lparr>PINGPONG_MODE := PINGPONG_ALL_EP\<rparr>"
  have a: "standard_request_of cdc_engine (g_usb_setup ?s) = None"
    by (simp add: cdc_engine_def default_state_def setup_packet_def)
  have b: "fst (class_request cdc_engine (abort_transfer ?s)) = False"
    by (simp add: cdc_engine_def cdc_class_request_def cdc_build_def default_state_def
          setup_packet_def)
  have m: "PINGPONG_MODE cdc_build \<noteq> PINGPONG_ALL_EP"
    by (simp add: cdc_build_def)
  have n: "PINGPONG_MODE ?all = PINGPONG_ALL_EP"
    by simp
  have k: "class_request cdc_engine = cdc_class_request cdc_build"
    by (simp add: cdc_engine_def)
  from request_error_on_unclaimed_request [OF a b, of cdc_build] m k
  have one: "send_stall (g_usb_bd_table (process_setup cdc_build cdc_engine ?s) BD0_IN)
     \<and> owned_by_hw (g_usb_bd_table (process_setup cdc_build cdc_engine ?s) BD0_IN)
     \<and> g_usb_ep_stat (process_setup cdc_build cdc_engine ?s) = g_usb_ep_stat ?s"
    by blast
  from request_error_on_unclaimed_request [OF a b, of ?all] n
  have both: "send_stall (g_usb_bd_table (process_setup ?all cdc_engine ?s) BD0_IN_EVEN)
     \<and> send_stall (g_usb_bd_table (process_setup ?all cdc_engine ?s) BD0_IN_ODD)"
    by blast
  from a b one both show ?thesis by blast
qed

section \<open>SET_ADDRESS\<close>

text \<open>
  C3. Decoding the SETUP packet of a SET_ADDRESS request changes neither the device state
  nor the device address: it arms the STATUS_IN stage. The completion of that stage
  moves the device to the Address state and makes the new address take effect. A completed
  IN transaction on endpoint 0 changes the state or the address in no other situation.
\<close>

theorem set_address_takes_effect_after_status:
  assumes "standard_request_of eng (g_usb_setup s) = Some SET_ADDRESS"
  shows "m_usb_state (process_setup cfg eng s) = m_usb_state s
       \<and> device_address (process_setup cfg eng s) = device_address s
       \<and> control_stage (process_setup cfg eng s) = STATUS_IN_STAGE
       \<and> m_usb_state (ep0_in_complete cfg eng (process_setup cfg eng s)) = STATE_ADDRESS
       \<and> device_address (ep0_in_complete cfg eng (process_setup cfg eng s)) = wValue (g_usb_setup s)
       \<and> (m_usb_state (ep0_in_complete cfg eng t) \<noteq> m_usb_state t
            \<or> device_address (ep0_in_complete cfg eng t) \<noteq> device_address t
          \<longrightarrow> control_stage t = STATUS_IN_STAGE
              \<and> standard_request_of eng (g_usb_setup t) = Some SET_ADDRESS)"
proof -
  have p: "process_setup cfg eng s
             = usb_arm_in_status cfg ((abort_transfer s)\<lparr>control_stage := STATUS_IN_STAGE\<rparr>)"
    using assms by (simp add: process_setup_def Let_def)
  have before: "m_usb_state (process_setup cfg eng s) = m_usb_state s
       \<and> device_address (process_setup cfg eng s) = device_address s
       \<and> control_stage (process_setup cfg eng s) = STATUS_IN_STAGE
       \<and> g_usb_setup (process_setup cfg eng s) = g_usb_setup s"
    unfolding p by simp
  have after: "m_usb_state (ep0_in_complete cfg eng (process_setup cfg eng s)) = STATE_ADDRESS
       \<and> device_address (ep0_in_complete cfg eng (process_setup cfg eng s)) = wValue (g_usb_setup s)"
    using before assms by (simp add: ep0_in_complete_def Let_def)
  have only: "m_usb_state (ep0_in_complete cfg eng t) \<noteq> m_usb_state t
            \<or> device_address (ep0_in_complete cfg eng t) \<noteq> device_address t
          \<longrightarrow> control_stage t = STATUS_IN_STAGE
              \<and> standard_request_of eng (g_usb_setup t) = Some SET_ADDRESS"
    by (simp add: ep0_in_complete_def Let_def)
  from before after only show ?thesis by simp
qed

theorem set_address_takes_effect_after_status_witness:
  "standard_request_of cdc_engine (g_usb_setup (default_state (setup_packet 0 5 7 0 0))) = Some SET_ADDRESS
   \<and> m_usb_state (default_state (setup_packet 0 5 7 0 0)) = STATE_DEFAULT
   \<and> m_usb_state (process_setup cdc_build cdc_engine (default_state (setup_packet 0 5 7 0 0)))
       = STATE_DEFAULT
   \<and> device_address (process_setup cdc_build cdc_engine (default_state (setup_packet 0 5 7 0 0))) = 0
   \<and> m_usb_state (ep0_in_complete cdc_build cdc_engine
        (process_setup cdc_build cdc_engine (default_state (setup_packet 0 5 7 0 0)))) = STATE_ADDRESS
   \<and> device_address (ep0_in_complete cdc_build cdc_engine
        (process_setup cdc_build cdc_engine (default_state (setup_packet 0 5 7 0 0)))) = 7"
proof -
  let ?s = "default_state (setup_packet 0 5 7 0 0)"
  have a: "standard_request_of cdc_engine (g_usb_setup ?s) = Some SET_ADDRESS"
    by (simp add: cdc_engine_def default_state_def setup_packet_def)
  from set_address_takes_effect_after_status [OF a, of cdc_build] a show ?thesis
    by (simp add: default_state_def setup_packet_def)
qed

section \<open>Rejection of malformed CDC requests\<close>

text \<open>
  C6. \<^verbatim>\<open>cdc_class_request\<close> returns false whenever the request is malformed for its
  local buffers: SET_LINE_CODING with a declared \<^verbatim>\<open>Size_of_Structure\<close> above 7,
  SEND_ENCAPSULATED_COMMAND with \<^verbatim>\<open>wLength\<close> above 8, and SET_CONTROL_LINE_STATE with a
  \<^verbatim>\<open>wIndex\<close> that is not the CDC communication interface number. This holds whichever
  optional cases are compiled in: a case that is compiled out falls to \<^verbatim>\<open>default\<close>, which
  returns false as well.
\<close>

theorem cdc_class_request_rejects_malformed:
  assumes "switch_compiles cfg"
    and "bRequest (g_usb_setup s) = SET_LINE_CODING cfg \<and> 7 < Size_of_Structure s
       \<or> bRequest (g_usb_setup s) = SEND_ENCAPSULATED_COMMAND cfg \<and> 8 < wLength (g_usb_setup s)
       \<or> bRequest (g_usb_setup s) = SET_CONTROL_LINE_STATE cfg \<and> wIndex (g_usb_setup s) \<noteq> CDC_COM_INT cfg"
  shows "fst (cdc_class_request cfg s) = False"
  using assms(2)
proof (elim disjE conjE)
  assume "bRequest (g_usb_setup s) = SET_LINE_CODING cfg" and "7 < Size_of_Structure s"
  then show ?thesis
    by (simp add: dispatch_SET_LINE_CODING [OF assms(1)] case_SET_LINE_CODING_def
          Size_of_Structure_def Let_def)
next
  assume "bRequest (g_usb_setup s) = SEND_ENCAPSULATED_COMMAND cfg" and "8 < wLength (g_usb_setup s)"
  then show ?thesis
    by (simp add: dispatch_SEND_ENCAPSULATED_COMMAND [OF assms(1)]
          case_SEND_ENCAPSULATED_COMMAND_def Let_def)
next
  assume "bRequest (g_usb_setup s) = SET_CONTROL_LINE_STATE cfg"
    and "wIndex (g_usb_setup s) \<noteq> CDC_COM_INT cfg"
  then show ?thesis
    by (simp add: dispatch_SET_CONTROL_LINE_STATE [OF assms(1)] case_SET_CONTROL_LINE_STATE_def)
qed

theorem cdc_class_request_rejects_malformed_witness:
  "fst (cdc_class_request cdc_build (default_state (setup_packet 0x21 0x20 0 0 8))) = False
   \<and> fst (cdc_class_request cdc_build (default_state (setup_packet 0x21 0x00 0 0 9))) = False
   \<and> fst (cdc_class_request cdc_build (default_state (setup_packet 0x21 0x22 3 1 0))) = False"
proof -
  have a: "fst (cdc_class_request cdc_build (default_state (setup_packet 0x21 0x20 0 0 8))) = False"
    by (rule cdc_class_request_rejects_malformed [OF cdc_build_compiles])
       (simp add: cdc_build_def default_state_def setup_packet_def Size_of_Structure_def)
  have b: "fst (cdc_class_request cdc_build (default_state (setup_packet 0x21 0x00 0 0 9))) = False"
    by (rule cdc_class_request_rejects_malformed [OF cdc_build_compiles])
       (simp add: cdc_build_def default_state_def setup_packet_def Size_of_Structure_def)
  have c: "fst (cdc_class_request cdc_build (default_state (setup_packet 0x21 0x22 3 1 0))) = False"
    by (rule cdc_class_request_rejects_malformed [OF cdc_build_compiles])
       (simp add: cdc_build_def default_state_def setup_packet_def Size_of_Structure_def)
  from a b c show ?thesis by simp
qed

section \<open>The device-state codes\<close>





section \<open>The interrupt service routine\<close>

text \<open>
  C8. An invocation of \<^verbatim>\<open>isr\<close> that finds the USB interrupt enabled and flagged runs the
  driving function once, on a state in which \<^verbatim>\<open>USB_INTERRUPT_FLAG\<close> is still set, and
  clears the flag only after the driving function has returned; whatever the driving
  function did to the flag, it is clear when \<^verbatim>\<open>isr\<close> returns, so an occurrence of the
  event during the run leads to no second run. Any other invocation does nothing.
\<close>

theorem isr_clears_flag_after_usb_tasks:
  "cleared_after_return False (fst (isr tasks m))
   \<and> (USB_INTERRUPT_ENABLE m \<and> USB_INTERRUPT_FLAG m \<longrightarrow>
        fst (isr tasks m) = [Usb_tasks_entered True, Usb_tasks_returned, Interrupt_flag_cleared]
        \<and> times_entered (fst (isr tasks m)) = 1
        \<and> snd (isr tasks m) = (tasks m)\<lparr>USB_INTERRUPT_FLAG := False\<rparr>
        \<and> USB_INTERRUPT_FLAG (snd (isr tasks m)) = False)
   \<and> (\<not> (USB_INTERRUPT_ENABLE m \<and> USB_INTERRUPT_FLAG m) \<longrightarrow> isr tasks m = ([], m))"
  by (simp add: isr_def times_entered_def)

theorem isr_clears_flag_after_usb_tasks_witness:
  "USB_INTERRUPT_ENABLE (raise_interrupt cdc_build (Transaction_done 2 IN []) (cdc_machine False False))
   \<and> USB_INTERRUPT_FLAG (raise_interrupt cdc_build (Transaction_done 2 IN []) (cdc_machine False False))
   \<and> fst (isr (usb_tasks cdc_build)
        (raise_interrupt cdc_build (Transaction_done 2 IN []) (cdc_machine False False)))
       = [Usb_tasks_entered True, Usb_tasks_returned, Interrupt_flag_cleared]
   \<and> USB_INTERRUPT_FLAG (snd (isr (usb_tasks cdc_build)
        (raise_interrupt cdc_build (Transaction_done 2 IN []) (cdc_machine False False)))) = False
   \<and> USB_INTERRUPT_FLAG (snd (isr (\<lambda>m. m\<lparr>USB_INTERRUPT_FLAG := True\<rparr>)
        (raise_interrupt cdc_build (Transaction_done 2 IN []) (cdc_machine False False)))) = False
   \<and> isr (usb_tasks cdc_build) (cdc_machine False False) = ([], cdc_machine False False)"
proof -
  let ?m = "raise_interrupt cdc_build (Transaction_done 2 IN []) (cdc_machine False False)"
  have a: "USB_INTERRUPT_ENABLE ?m \<and> USB_INTERRUPT_FLAG ?m"
    by (simp add: cdc_machine_def cdc_build_def Let_def)
  have b: "\<not> (USB_INTERRUPT_ENABLE (cdc_machine False False)
              \<and> USB_INTERRUPT_FLAG (cdc_machine False False))"
    by (simp add: cdc_machine_def)
  from isr_clears_flag_after_usb_tasks [of "usb_tasks cdc_build" ?m] a
  have run: "fst (isr (usb_tasks cdc_build) ?m)
               = [Usb_tasks_entered True, Usb_tasks_returned, Interrupt_flag_cleared]
     \<and> USB_INTERRUPT_FLAG (snd (isr (usb_tasks cdc_build) ?m)) = False"
    by blast
  from isr_clears_flag_after_usb_tasks [of "\<lambda>m. m\<lparr>USB_INTERRUPT_FLAG := True\<rparr>" ?m] a
  have again: "USB_INTERRUPT_FLAG (snd (isr (\<lambda>m. m\<lparr>USB_INTERRUPT_FLAG := True\<rparr>) ?m)) = False"
    by blast
  from isr_clears_flag_after_usb_tasks [of "usb_tasks cdc_build" "cdc_machine False False"] b
  have idle: "isr (usb_tasks cdc_build) (cdc_machine False False) = ([], cdc_machine False False)"
    by blast
  from a run again idle show ?thesis by blast
qed

section \<open>What a rejected CDC request leaves behind\<close>

text \<open>
  C10. Whenever \<^verbatim>\<open>cdc_class_request\<close> returns false, it has called none of
  \<^verbatim>\<open>usb_set_control_stage\<close>, \<^verbatim>\<open>usb_set_num_out_control_bytes\<close> and
  \<^verbatim>\<open>usb_setup_in_control_transfer\<close> and has armed no endpoint: the calls it made are none
  at all or one call of \<^verbatim>\<open>usb_set_ram_ptr\<close>, and the control stage, the byte counts of the
  transfer, the descriptor table and the endpoint status are as before. On the
  SET_LINE_CODING and SEND_ENCAPSULATED_COMMAND paths the RAM source pointer has already
  been changed when the request is rejected.
\<close>

theorem cdc_class_request_rejection_frame:
  assumes "fst (cdc_class_request cfg s) = False"
  shows "control_stage (snd (cdc_class_request cfg s)) = control_stage s
       \<and> num_out_control_bytes (snd (cdc_class_request cfg s)) = num_out_control_bytes s
       \<and> num_in_control_bytes (snd (cdc_class_request cfg s)) = num_in_control_bytes s
       \<and> send_short (snd (cdc_class_request cfg s)) = send_short s
       \<and> g_usb_bd_table (snd (cdc_class_request cfg s)) = g_usb_bd_table s
       \<and> g_usb_ep_stat (snd (cdc_class_request cfg s)) = g_usb_ep_stat s
       \<and> g_cdc_set_line_coding_wait (snd (cdc_class_request cfg s)) = g_cdc_set_line_coding_wait s
       \<and> (new_calls s (snd (cdc_class_request cfg s)) = []
            \<and> ram_ptr (snd (cdc_class_request cfg s)) = ram_ptr s
          \<or> new_calls s (snd (cdc_class_request cfg s)) = [Call_usb_set_ram_ptr Ref_g_cdc_set_line_coding]
            \<and> ram_ptr (snd (cdc_class_request cfg s)) = Ref_g_cdc_set_line_coding
          \<or> new_calls s (snd (cdc_class_request cfg s)) = [Call_usb_set_ram_ptr Ref_dummy_buffer]
            \<and> ram_ptr (snd (cdc_class_request cfg s)) = Ref_dummy_buffer)
       \<and> (switch_compiles cfg \<and> USE_SET_LINE_CODING cfg
            \<and> bRequest (g_usb_setup s) = SET_LINE_CODING cfg
          \<longrightarrow> ram_ptr (snd (cdc_class_request cfg s)) = Ref_g_cdc_set_line_coding)
       \<and> (switch_compiles cfg \<and> bRequest (g_usb_setup s) = SEND_ENCAPSULATED_COMMAND cfg
          \<longrightarrow> ram_ptr (snd (cdc_class_request cfg s)) = Ref_dummy_buffer)"
proof -
  let ?r = "snd (cdc_class_request cfg s)"
  have st: "?r = s \<or> ?r = usb_set_ram_ptr Ref_g_cdc_set_line_coding s
             \<or> ?r = usb_set_ram_ptr Ref_dummy_buffer s"
    by (rule cdc_class_request_rejected_state [OF assms])
  have frame: "control_stage ?r = control_stage s
       \<and> num_out_control_bytes ?r = num_out_control_bytes s
       \<and> num_in_control_bytes ?r = num_in_control_bytes s
       \<and> send_short ?r = send_short s
       \<and> g_usb_bd_table ?r = g_usb_bd_table s
       \<and> g_usb_ep_stat ?r = g_usb_ep_stat s
       \<and> g_cdc_set_line_coding_wait ?r = g_cdc_set_line_coding_wait s"
    using st by (elim disjE) simp_all
  have log: "new_calls s ?r = [] \<and> ram_ptr ?r = ram_ptr s
          \<or> new_calls s ?r = [Call_usb_set_ram_ptr Ref_g_cdc_set_line_coding]
            \<and> ram_ptr ?r = Ref_g_cdc_set_line_coding
          \<or> new_calls s ?r = [Call_usb_set_ram_ptr Ref_dummy_buffer]
            \<and> ram_ptr ?r = Ref_dummy_buffer"
    using st by (elim disjE) simp_all
  have slc: "ram_ptr ?r = Ref_g_cdc_set_line_coding"
    if "switch_compiles cfg" "USE_SET_LINE_CODING cfg" "bRequest (g_usb_setup s) = SET_LINE_CODING cfg"
  proof -
    have "cdc_class_request cfg s = case_SET_LINE_CODING cfg s"
      using dispatch_SET_LINE_CODING [OF that(1) that(3)] that(2) by simp
    with assms show ?thesis
      by (simp add: case_SET_LINE_CODING_rejected)
  qed
  have sec: "ram_ptr ?r = Ref_dummy_buffer"
    if "switch_compiles cfg" "bRequest (g_usb_setup s) = SEND_ENCAPSULATED_COMMAND cfg"
  proof -
    have "cdc_class_request cfg s = case_SEND_ENCAPSULATED_COMMAND cfg s"
      using dispatch_SEND_ENCAPSULATED_COMMAND [OF that] by simp
    with assms show ?thesis
      by (simp add: case_SEND_ENCAPSULATED_COMMAND_rejected)
  qed
  from frame log slc sec show ?thesis by blast
qed

theorem cdc_class_request_rejection_frame_witness:
  "fst (cdc_class_request cdc_build (default_state (setup_packet 0x21 0x20 0 0 8))) = False
   \<and> ram_ptr (default_state (setup_packet 0x21 0x20 0 0 8)) = Ref_other 0
   \<and> ram_ptr (snd (cdc_class_request cdc_build (default_state (setup_packet 0x21 0x20 0 0 8))))
       = Ref_g_cdc_set_line_coding
   \<and> control_stage (snd (cdc_class_request cdc_build (default_state (setup_packet 0x21 0x20 0 0 8))))
       = SETUP_STAGE
   \<and> num_out_control_bytes (snd (cdc_class_request cdc_build (default_state (setup_packet 0x21 0x20 0 0 8))))
       = 0
   \<and> fst (cdc_class_request cdc_build (default_state (setup_packet 0x21 0x00 0 0 9))) = False
   \<and> ram_ptr (snd (cdc_class_request cdc_build (default_state (setup_packet 0x21 0x00 0 0 9))))
       = Ref_dummy_buffer
   \<and> control_stage (snd (cdc_class_request cdc_build (default_state (setup_packet 0x21 0x00 0 0 9))))
       = SETUP_STAGE"
proof -
  let ?s = "default_state (setup_packet 0x21 0x20 0 0 8)"
  let ?t = "default_state (setup_packet 0x21 0x00 0 0 9)"
  have req: "USE_SET_LINE_CODING cdc_build" "bRequest (g_usb_setup ?s) = SET_LINE_CODING cdc_build"
    by (simp_all add: cdc_build_def default_state_def setup_packet_def)
  have "cdc_class_request cdc_build ?s = case_SET_LINE_CODING cdc_build ?s"
    using dispatch_SET_LINE_CODING [OF cdc_build_compiles req(2)] req(1) by simp
  then have rej: "fst (cdc_class_request cdc_build ?s) = False"
    by (simp add: case_SET_LINE_CODING_def Let_def Size_of_Structure_def default_state_def
          setup_packet_def)
  have req2: "bRequest (g_usb_setup ?t) = SEND_ENCAPSULATED_COMMAND cdc_build"
    by (simp add: cdc_build_def default_state_def setup_packet_def)
  have "cdc_class_request cdc_build ?t = case_SEND_ENCAPSULATED_COMMAND cdc_build ?t"
    using dispatch_SEND_ENCAPSULATED_COMMAND [OF cdc_build_compiles req2] by simp
  then have rej2: "fst (cdc_class_request cdc_build ?t) = False"
    by (simp add: case_SEND_ENCAPSULATED_COMMAND_def Let_def default_state_def setup_packet_def)
  from cdc_class_request_rejection_frame [OF rej] cdc_build_compiles req
  have one: "ram_ptr (snd (cdc_class_request cdc_build ?s)) = Ref_g_cdc_set_line_coding
     \<and> control_stage (snd (cdc_class_request cdc_build ?s)) = control_stage ?s
     \<and> num_out_control_bytes (snd (cdc_class_request cdc_build ?s)) = num_out_control_bytes ?s"
    by blast
  from cdc_class_request_rejection_frame [OF rej2] cdc_build_compiles req2
  have two: "ram_ptr (snd (cdc_class_request cdc_build ?t)) = Ref_dummy_buffer
     \<and> control_stage (snd (cdc_class_request cdc_build ?t)) = control_stage ?t"
    by blast
  from rej rej2 one two show ?thesis
    by (simp add: default_state_def)
qed

section \<open>Who writes the transfer-complete flags\<close>

lemma foreground_writes_append [simp]:
  "foreground_writes (xs @ ys) = foreground_writes xs @ foreground_writes ys"
  by (simp add: foreground_writes_def)

lemma foreground_writes_Nil [simp]: "foreground_writes [] = []"
  by (simp add: foreground_writes_def)

lemma foreground_writes_Cons [simp]:
  "foreground_writes (x # xs) = (if foreground_write x then x # foreground_writes xs else foreground_writes xs)"
  by (simp add: foreground_writes_def)

lemma step_fields [simp]:
  "trace (step x m) = trace m @ [x]"
  "m_serial_pkt_sent (step x m) = m_serial_pkt_sent m"
  "m_serial_pkt_rcv (step x m) = m_serial_pkt_rcv m"
  by (simp_all add: step_def)







lemma raise_interrupt_trace [simp]:
  "trace (raise_interrupt cfg e m) = trace m"
  by (cases e) (simp_all add: Let_def)







lemma wait_pkt_rcv_flag:
  "m_serial_pkt_rcv (final (wait_pkt_rcv cfg es m)) = returns (wait_pkt_rcv cfg es m)"
  by (induction es arbitrary: m) simp_all



lemma receive_returns:
  "returns (receive cfg (m, es)) = returns (wait_pkt_rcv cfg es m)"
  by (cases "wait_pkt_rcv cfg es m") (simp_all add: receive_def Let_def)












end
